theory Spec2Isabelle
  imports Main "HOL-Library.Sublist"
begin

section \<open>Go strings as byte lists\<close>

text \<open>
  A Go \<^verbatim>\<open>string\<close> (and a \<^verbatim>\<open>[]byte\<close>) is a sequence of bytes; \<^typ>\<open>string\<close> is
  \<^typ>\<open>char list\<close> and \<^typ>\<open>char\<close> is a byte, so the two coincide. The functions of
  package \<^verbatim>\<open>strings\<close> that the worker calls are written out below.
\<close>

definition HasPrefix :: "string \<Rightarrow> string \<Rightarrow> bool" where
  "HasPrefix s pre = (take (length pre) s = pre)"

definition TrimPrefix :: "string \<Rightarrow> string \<Rightarrow> string" where
  "TrimPrefix s pre = (if HasPrefix s pre then drop (length pre) s else s)"

definition HasSuffix :: "string \<Rightarrow> string \<Rightarrow> bool" where
  "HasSuffix s suf = (length suf \<le> length s \<and> drop (length s - length suf) s = suf)"

fun Contains :: "string \<Rightarrow> string \<Rightarrow> bool" where
  "Contains [] substr = (substr = [])"
| "Contains (c # s) substr = (HasPrefix (c # s) substr \<or> Contains s substr)"

text \<open>\<^verbatim>\<open>strings.Split(s, sep)\<close> for a separator of one byte: one more piece than there
  are separators, so the result is never empty.\<close>

fun Split :: "string \<Rightarrow> char \<Rightarrow> string list" where
  "Split [] sep = [[]]"
| "Split (c # s) sep =
     (if c = sep then [] # Split s sep
      else (case Split s sep of [] \<Rightarrow> [[c]] | piece # pieces \<Rightarrow> (c # piece) # pieces))"

text \<open>
  \<^verbatim>\<open>strings.TrimSpace\<close> removes the runes for which \<^verbatim>\<open>unicode.IsSpace\<close> holds from both
  ends. The table lists the UTF-8 encodings of those runes: the six ASCII ones, U+0085,
  U+00A0, U+1680, U+2000 to U+200A, U+2028, U+2029, U+202F, U+205F and U+3000.
\<close>

definition unicode_IsSpace_encodings :: "string list" where
  "unicode_IsSpace_encodings =
     [[CHR 0x09], [CHR 0x0A], [CHR 0x0B], [CHR 0x0C], [CHR 0x0D], [CHR 0x20],
      [CHR 0xC2, CHR 0x85], [CHR 0xC2, CHR 0xA0],
      [CHR 0xE1, CHR 0x9A, CHR 0x80],
      [CHR 0xE2, CHR 0x80, CHR 0x80], [CHR 0xE2, CHR 0x80, CHR 0x81],
      [CHR 0xE2, CHR 0x80, CHR 0x82], [CHR 0xE2, CHR 0x80, CHR 0x83],
      [CHR 0xE2, CHR 0x80, CHR 0x84], [CHR 0xE2, CHR 0x80, CHR 0x85],
      [CHR 0xE2, CHR 0x80, CHR 0x86], [CHR 0xE2, CHR 0x80, CHR 0x87],
      [CHR 0xE2, CHR 0x80, CHR 0x88], [CHR 0xE2, CHR 0x80, CHR 0x89],
      [CHR 0xE2, CHR 0x80, CHR 0x8A],
      [CHR 0xE2, CHR 0x80, CHR 0xA8], [CHR 0xE2, CHR 0x80, CHR 0xA9],
      [CHR 0xE2, CHR 0x80, CHR 0xAF], [CHR 0xE2, CHR 0x81, CHR 0x9F],
      [CHR 0xE3, CHR 0x80, CHR 0x80]]"

text \<open>Drop leading runes whose encoding is in the table.\<close>

fun strip_runes :: "string list \<Rightarrow> string \<Rightarrow> string" where
  "strip_runes tbl [] = []"
| "strip_runes tbl (c # s) =
     (case find (HasPrefix (c # s)) tbl of
        None \<Rightarrow> c # s
      | Some enc \<Rightarrow> strip_runes tbl (drop (length enc - 1) s))"

definition TrimLeftSpace :: "string \<Rightarrow> string" where
  "TrimLeftSpace s = strip_runes unicode_IsSpace_encodings s"

text \<open>From the right the last rune is decoded backwards; on a reversed string
  that is a reversed encoding at the front.\<close>

definition TrimRightSpace :: "string \<Rightarrow> string" where
  "TrimRightSpace s = rev (strip_runes (map rev unicode_IsSpace_encodings) (rev s))"

definition TrimSpace :: "string \<Rightarrow> string" where
  "TrimSpace s = TrimRightSpace (TrimLeftSpace s)"

section \<open>Errors\<close>

text \<open>
  A Go \<^verbatim>\<open>error\<close> is either made from a message (\<^verbatim>\<open>fmt.Errorf("...")\<close>) or wraps
  another error behind a prefix (\<^verbatim>\<open>fmt.Errorf("prefix: %w", err)\<close>). A \<^verbatim>\<open>nil\<close>
  error is \<^term>\<open>None\<close>.
\<close>

datatype error = Errorf string | Wrapf string error

fun Error :: "error \<Rightarrow> string" where
  "Error (Errorf msg) = msg"
| "Error (Wrapf pre err) = pre @ Error err"

text \<open>A call either returns or panics (index out of range).\<close>

datatype 'a outcome = Returns 'a | Panics

section \<open>The regular expressions of extractBranchFromPRInfo\<close>

text \<open>
  The three patterns are matched by \<^verbatim>\<open>regexp.FindStringSubmatch\<close>: the leftmost match
  wins. In each of them the class after a repetition excludes what the repetition
  consumes, so matching at one position is deterministic: skip the literal, skip
  \<^verbatim>\<open>\s*\<close> greedily, then take the group greedily. \<^verbatim>\<open>\s\<close> is \<^verbatim>\<open>[\t\n\f\r ]\<close>. All
  literal characters are ASCII and none of them folds to a non-ASCII rune under
  \<^verbatim>\<open>(?i)\<close>, so matching is on bytes.
\<close>

definition regexp_space :: "char \<Rightarrow> bool" where
  "regexp_space c = (c \<in> {CHR 0x09, CHR 0x0A, CHR 0x0C, CHR 0x0D, CHR 0x20})"

definition ascii_lower :: "char \<Rightarrow> char" where
  "ascii_lower c =
     (let n = (of_char c :: nat) in if 65 \<le> n \<and> n \<le> 90 then char_of (n + 32) else c)"

definition strip_literal :: "string \<Rightarrow> string \<Rightarrow> string option" where
  "strip_literal lit s = (if HasPrefix s lit then Some (drop (length lit) s) else None)"

text \<open>The literal is given in lower case.\<close>

definition strip_literal_fold :: "string \<Rightarrow> string \<Rightarrow> string option" where
  "strip_literal_fold lit s =
     (if map ascii_lower (take (length lit) s) = lit then Some (drop (length lit) s) else None)"

text \<open>\<^verbatim>\<open>"headRefName":\s*"([^"]+)"\<close> at the start of the string; the group.\<close>

definition match_headRefName :: "string \<Rightarrow> string option" where
  \<open>match_headRefName s =
     (case strip_literal ''"headRefName":'' s of
        None \<Rightarrow> None
      | Some r \<Rightarrow>
          (case dropWhile regexp_space r of
             [] \<Rightarrow> None
           | c # r' \<Rightarrow>
               if c \<noteq> CHR 0x22 then None
               else (let grp = takeWhile (\<lambda>c. c \<noteq> CHR 0x22) r' in
                     if grp \<noteq> [] \<and> dropWhile (\<lambda>c. c \<noteq> CHR 0x22) r' \<noteq> []
                     then Some grp else None)))\<close>

text \<open>\<^verbatim>\<open>(?i)branch:\s*([^\s\n]+)\<close> and \<^verbatim>\<open>(?i)head:\s*([^\s\n]+)\<close> at the start of
  the string, the keyword given with its colon.\<close>

definition match_keyword :: "string \<Rightarrow> string \<Rightarrow> string option" where
  "match_keyword kw s =
     (case strip_literal_fold kw s of
        None \<Rightarrow> None
      | Some r \<Rightarrow>
          (let grp = takeWhile (\<lambda>c. \<not> regexp_space c) (dropWhile regexp_space r) in
           if grp \<noteq> [] then Some grp else None))"

text \<open>The leftmost position where the pattern matches.\<close>

fun FindStringSubmatch :: "(string \<Rightarrow> string option) \<Rightarrow> string \<Rightarrow> string option" where
  "FindStringSubmatch m [] = m []"
| "FindStringSubmatch m (c # s) =
     (case m (c # s) of Some grp \<Rightarrow> Some grp | None \<Rightarrow> FindStringSubmatch m s)"

section \<open>The injected capabilities\<close>

text \<open>
  The worker reaches the outside world through three interfaces. An implementation of a
  method is a function from its arguments and the state of the world \<open>'s\<close> to its reply
  and the new state. A Go result \<^verbatim>\<open>(v, err)\<close> whose value is read only when \<^verbatim>\<open>err\<close> is
  \<^verbatim>\<open>nil\<close> is a sum; \<^verbatim>\<open>RunWithOutput\<close> gives output and error together, since the caller
  keeps both. The \<^verbatim>\<open>context\<close> handed to the runner is represented by the deadline it
  was made from (a \<^verbatim>\<open>time.Duration\<close>).
\<close>

record 's LocalGit =
  CheckWorktreeExists :: "string \<Rightarrow> 's \<Rightarrow> (error + bool) \<times> 's"
  CreateWorktree :: "string \<Rightarrow> string \<Rightarrow> 's \<Rightarrow> error option \<times> 's"
  ChangeDirectory :: "string \<Rightarrow> 's \<Rightarrow> error option \<times> 's"
  CommitAndPush :: "string \<Rightarrow> 's \<Rightarrow> error option \<times> 's"
  GetWorktreePath :: "string \<Rightarrow> 's \<Rightarrow> (error + string) \<times> 's"
  IsGitRepository :: "'s \<Rightarrow> (error + bool) \<times> 's"
  GetGitHubRepository :: "'s \<Rightarrow> (error + string \<times> string) \<times> 's"
  CreateBranch :: "string \<Rightarrow> 's \<Rightarrow> error option \<times> 's"
  WriteFile :: "string \<Rightarrow> string \<Rightarrow> 's \<Rightarrow> error option \<times> 's"
  PushBranchUpstream :: "string \<Rightarrow> 's \<Rightarrow> error option \<times> 's"
  BranchExists :: "string \<Rightarrow> 's \<Rightarrow> (error + bool) \<times> 's"

record 's GitHub =
  GetPRInfo :: "int \<Rightarrow> 's \<Rightarrow> (error + string) \<times> 's"
  PostComment :: "int \<Rightarrow> string \<Rightarrow> 's \<Rightarrow> error option \<times> 's"
  CreatePR :: "string \<Rightarrow> string \<Rightarrow> 's \<Rightarrow> error option \<times> 's"

record 's CommandRunner =
  RunWithStdin :: "int \<Rightarrow> string \<Rightarrow> string \<Rightarrow> string list \<Rightarrow> 's \<Rightarrow> error option \<times> 's"
  RunWithOutput :: "int \<Rightarrow> string \<Rightarrow> string list \<Rightarrow> 's \<Rightarrow> (string \<times> error option) \<times> 's"

text \<open>What a run did is the list of the capability calls it made, each with its
  arguments and its reply, in the order of the calls.\<close>

datatype event =
    GetPRInfo_call int "error + string"
  | PostComment_call int string "error option"
  | CreatePR_call string string "error option"
  | CheckWorktreeExists_call string "error + bool"
  | CreateWorktree_call string string "error option"
  | ChangeDirectory_call string "error option"
  | CommitAndPush_call string "error option"
  | GetWorktreePath_call string "error + string"
  | CreateBranch_call string "error option"
  | WriteFile_call string string "error option"
  | PushBranchUpstream_call string "error option"
  | RunWithStdin_call int string string "string list" "error option"
  | RunWithOutput_call int string "string list" string "error option"

section \<open>The worker\<close>

record 's Worker =
  Instructions :: string
  AgentCommand :: "string list"
  LintCommand :: "string list"
  TestCommand :: "string list"
  Deadline :: int
  Git :: "'s LocalGit"
  GitHub :: "'s GitHub"
  Runner :: "'s CommandRunner"

definition extractBranchFromPRInfo :: "string \<Rightarrow> error + string" where
  "extractBranchFromPRInfo prInfo =
     (case FindStringSubmatch match_headRefName prInfo of
        Some grp \<Rightarrow> Inr grp
      | None \<Rightarrow>
          (case FindStringSubmatch (match_keyword ''branch:'') prInfo of
             Some grp \<Rightarrow> Inr grp
           | None \<Rightarrow>
               (case FindStringSubmatch (match_keyword ''head:'') prInfo of
                  Some grp \<Rightarrow> Inr grp
                | None \<Rightarrow> Inl (Errorf ''could not extract branch name from PR info''))))"

definition generatePrompt :: "'s Worker \<Rightarrow> string \<Rightarrow> string" where
  "generatePrompt w prInfo =
     Instructions w @ [CHR 0x0A, CHR 0x0A] @ ''<pull-request>'' @ [CHR 0x0A] @ prInfo
       @ [CHR 0x0A] @ ''</pull-request>''"

text \<open>The markers are a cross mark (U+274C) and a check mark (U+2705) in UTF-8.\<close>

definition failed_marker :: string where
  "failed_marker = [CHR 0xE2, CHR 0x9D, CHR 0x8C] @ '' **Failed**'' @ [CHR 0x0A]"

definition passed_marker :: string where
  "passed_marker = [CHR 0xE2, CHR 0x9C, CHR 0x85] @ '' **Passed**'' @ [CHR 0x0A]"

definition fence_open :: string where
  "fence_open = ''```'' @ [CHR 0x0A]"

definition fence_close :: string where
  "fence_close = [CHR 0x0A] @ ''```'' @ [CHR 0x0A]"

definition formatResultsComment ::
  "string \<Rightarrow> error option \<Rightarrow> string \<Rightarrow> error option \<Rightarrow> string" where
  "formatResultsComment lintOutput lintErr testOutput testErr =
     ''## Kratt Worker Results'' @ [CHR 0x0A, CHR 0x0A]
     @ ''### Lint Results'' @ [CHR 0x0A]
     @ (case lintErr of
          Some err \<Rightarrow> failed_marker @ fence_open @ Error err @ fence_close
        | None \<Rightarrow> passed_marker)
     @ (if length lintOutput > 0 then fence_open @ lintOutput @ fence_close else [])
     @ [CHR 0x0A]
     @ ''### Test Results'' @ [CHR 0x0A]
     @ (case testErr of
          Some err \<Rightarrow> failed_marker @ fence_open @ Error err @ fence_close
        | None \<Rightarrow> passed_marker)
     @ (if length testOutput > 0 then fence_open @ testOutput @ fence_close else [])"

text \<open>
  \<^verbatim>\<open>ProcessPR\<close> returns its result, the state of the world it leaves and the calls it
  made. Each \<^verbatim>\<open>if err != nil { return ... }\<close> is the error branch of a \<open>case\<close>. The
  expressions \<^verbatim>\<open>w.AgentCommand[0]\<close>, \<^verbatim>\<open>w.LintCommand[0]\<close> and \<^verbatim>\<open>w.TestCommand[0]\<close> are
  evaluated before the call they are arguments of, and panic on an empty slice.
\<close>

definition ProcessPR ::
  "'s Worker \<Rightarrow> int \<Rightarrow> 's \<Rightarrow> error option outcome \<times> 's \<times> event list" where
  "ProcessPR w prNumber s0 =
   (let (r1, s1) = GetPRInfo (GitHub w) prNumber s0;
        t1 = [GetPRInfo_call prNumber r1] in
    (case r1 of
      Inl err \<Rightarrow> (Returns (Some (Wrapf ''failed to get PR info: '' err)), s1, t1)
    | Inr prInfo \<Rightarrow>
    (case extractBranchFromPRInfo prInfo of
      Inl err \<Rightarrow>
        (Returns (Some (Wrapf ''failed to extract branch from PR info: '' err)), s1, t1)
    | Inr branch \<Rightarrow>
    (let (r2, s2) = CheckWorktreeExists (Git w) branch s1;
         t2 = t1 @ [CheckWorktreeExists_call branch r2] in
    (case r2 of
      Inl err \<Rightarrow>
        (Returns (Some (Wrapf ''failed to check worktree existence: '' err)), s2, t2)
    | Inr exists \<Rightarrow>
    (let (early, s4, t4) =
       (if \<not> exists then
          (let (r3, s3) = GetWorktreePath (Git w) branch s2;
               t3 = t2 @ [GetWorktreePath_call branch r3] in
           (case r3 of
              Inl err \<Rightarrow> (Some (Wrapf ''failed to get worktree path: '' err), s3, t3)
            | Inr path \<Rightarrow>
                (let (r4, s4) = CreateWorktree (Git w) branch path s3;
                     t4 = t3 @ [CreateWorktree_call branch path r4] in
                 (case r4 of
                    Some err \<Rightarrow> (Some (Wrapf ''failed to create worktree: '' err), s4, t4)
                  | None \<Rightarrow> (None, s4, t4)))))
        else (None, s2, t2)) in
    (case early of
      Some err \<Rightarrow> (Returns (Some err), s4, t4)
    | None \<Rightarrow>
    (let (r5, s5) = GetWorktreePath (Git w) branch s4;
         t5 = t4 @ [GetWorktreePath_call branch r5] in
    (case r5 of
      Inl err \<Rightarrow> (Returns (Some (Wrapf ''failed to get worktree path: '' err)), s5, t5)
    | Inr path \<Rightarrow>
    (let (r6, s6) = ChangeDirectory (Git w) path s5;
         t6 = t5 @ [ChangeDirectory_call path r6] in
    (case r6 of
      Some err \<Rightarrow> (Returns (Some (Wrapf ''failed to change directory: '' err)), s6, t6)
    | None \<Rightarrow>
    (let prompt = generatePrompt w prInfo;
         ctx = Deadline w in
    (case AgentCommand w of
      [] \<Rightarrow> (Panics, s6, t6)
    | agent # agentArgs \<Rightarrow>
    (let (r7, s7) = RunWithStdin (Runner w) ctx prompt agent agentArgs s6;
         t7 = t6 @ [RunWithStdin_call ctx prompt agent agentArgs r7] in
    (case r7 of
      Some err \<Rightarrow> (Returns (Some (Wrapf ''failed to run agent: '' err)), s7, t7)
    | None \<Rightarrow>
    (case LintCommand w of
      [] \<Rightarrow> (Panics, s7, t7)
    | lint # lintArgs \<Rightarrow>
    (let ((lintOutput, lintErr), s8) = RunWithOutput (Runner w) ctx lint lintArgs s7;
         t8 = t7 @ [RunWithOutput_call ctx lint lintArgs lintOutput lintErr] in
    (case TestCommand w of
      [] \<Rightarrow> (Panics, s8, t8)
    | test # testArgs \<Rightarrow>
    (let ((testOutput, testErr), s9) = RunWithOutput (Runner w) ctx test testArgs s8;
         t9 = t8 @ [RunWithOutput_call ctx test testArgs testOutput testErr];
         commentBody = formatResultsComment lintOutput lintErr testOutput testErr;
         (r10, s10) = PostComment (GitHub w) prNumber commentBody s9;
         t10 = t9 @ [PostComment_call prNumber commentBody r10] in
    (case r10 of
      Some err \<Rightarrow> (Returns (Some (Wrapf ''failed to post comment: '' err)), s10, t10)
    | None \<Rightarrow>
    (let (r11, s11) = CommitAndPush (Git w) ''Automated changes from kratt worker'' s10;
         t11 = t10 @ [CommitAndPush_call ''Automated changes from kratt worker'' r11] in
    (case r11 of
      Some err \<Rightarrow> (Returns (Some (Wrapf ''failed to commit and push: '' err)), s11, t11)
    | None \<Rightarrow> (Returns None, s11, t11)))))))))))))))))))))))"

definition Start ::
  "'s Worker \<Rightarrow> string \<Rightarrow> string \<Rightarrow> 's \<Rightarrow> error option \<times> 's \<times> event list" where
  "Start w branchName instruction s0 =
   (let (r1, s1) = CreateBranch (Git w) branchName s0;
        t1 = [CreateBranch_call branchName r1] in
    (case r1 of
      Some err \<Rightarrow> (Some (Wrapf ''failed to create branch: '' err), s1, t1)
    | None \<Rightarrow>
    (let filePath = ''docs/'' @ branchName @ ''-instructions.md'';
         (r2, s2) = WriteFile (Git w) filePath instruction s1;
         t2 = t1 @ [WriteFile_call filePath instruction r2] in
    (case r2 of
      Some err \<Rightarrow> (Some (Wrapf ''failed to write instructions file: '' err), s2, t2)
    | None \<Rightarrow>
    (let (r3, s3) = CommitAndPush (Git w) (''Add instructions for '' @ branchName) s2;
         t3 = t2 @ [CommitAndPush_call (''Add instructions for '' @ branchName) r3] in
    (case r3 of
      Some err \<Rightarrow> (Some (Wrapf ''failed to commit instructions file: '' err), s3, t3)
    | None \<Rightarrow>
    (let (r4, s4) = PushBranchUpstream (Git w) branchName s3;
         t4 = t3 @ [PushBranchUpstream_call branchName r4] in
    (case r4 of
      Some err \<Rightarrow> (Some (Wrapf ''failed to push branch upstream: '' err), s4, t4)
    | None \<Rightarrow>
    (let title = ''Implement '' @ branchName;
         description = ''Study docs/'' @ branchName
           @ ''-instructions.md and make a list of necessary implementation steps in docs/''
           @ branchName @ ''-implementation-status.md'';
         (r5, s5) = CreatePR (GitHub w) title description s4;
         t5 = t4 @ [CreatePR_call title description r5] in
    (case r5 of
      Some err \<Rightarrow> (Some (Wrapf ''failed to create pull request: '' err), s5, t5)
    | None \<Rightarrow> (None, s5, t5)))))))))))"

section \<open>GitRunner: the git capability through external commands\<close>

text \<open>
  \<^verbatim>\<open>GitRunner\<close> runs \<^verbatim>\<open>git\<close> with \<^verbatim>\<open>exec.Command(name, args...)\<close>. The operating system
  is a parameter: \<open>cmd_Run\<close> stands for \<^verbatim>\<open>cmd.Run()\<close> and \<open>cmd_Output\<close> for
  \<^verbatim>\<open>cmd.Output()\<close>, each given the argument vector. A method returns its result, the new
  state and the argument vectors of the commands it executed, in order.
\<close>

record 's Exec =
  cmd_Run :: "string list \<Rightarrow> 's \<Rightarrow> error option \<times> 's"
  cmd_Output :: "string list \<Rightarrow> 's \<Rightarrow> (string \<times> error option) \<times> 's"

text \<open>The loop over the lines of \<^verbatim>\<open>git worktree list --porcelain\<close>.\<close>

fun branch_line_found :: "string list \<Rightarrow> string \<Rightarrow> bool" where
  "branch_line_found [] branch = False"
| "branch_line_found (line # lines) branch =
     (if HasPrefix line ''branch '' \<and> Contains line branch then True
      else branch_line_found lines branch)"

definition GitRunner_CheckWorktreeExists ::
  "'s Exec \<Rightarrow> string \<Rightarrow> 's \<Rightarrow> (error + bool) \<times> 's \<times> string list list" where
  "GitRunner_CheckWorktreeExists ex branch s0 =
   (let listCmd = [''git'', ''worktree'', ''list'', ''--porcelain''];
        ((output, err), s1) = cmd_Output ex listCmd s0 in
    (case err of
      Some e \<Rightarrow> (Inl (Wrapf ''failed to list worktrees: '' e), s1, [listCmd])
    | None \<Rightarrow> (Inr (branch_line_found (Split output (CHR 0x0A)) branch), s1, [listCmd])))"

definition GitRunner_CommitAndPush ::
  "'s Exec \<Rightarrow> string \<Rightarrow> 's \<Rightarrow> error option \<times> 's \<times> string list list" where
  "GitRunner_CommitAndPush ex message s0 =
   (let addCmd = [''git'', ''add'', ''.''];
        (r1, s1) = cmd_Run ex addCmd s0;
        c1 = [addCmd] in
    (case r1 of
      Some err \<Rightarrow> (Some (Wrapf ''failed to add changes: '' err), s1, c1)
    | None \<Rightarrow>
    (let statusCmd = [''git'', ''status'', ''--porcelain''];
         ((statusOutput, r2), s2) = cmd_Output ex statusCmd s1;
         c2 = c1 @ [statusCmd] in
    (case r2 of
      Some err \<Rightarrow> (Some (Wrapf ''failed to check git status: '' err), s2, c2)
    | None \<Rightarrow>
    if length (TrimSpace statusOutput) = 0 then (None, s2, c2)
    else
    (let commitCmd = [''git'', ''commit'', ''-m'', message];
         (r3, s3) = cmd_Run ex commitCmd s2;
         c3 = c2 @ [commitCmd] in
    (case r3 of
      Some err \<Rightarrow> (Some (Wrapf ''failed to commit changes: '' err), s3, c3)
    | None \<Rightarrow>
    (let branchCmd = [''git'', ''branch'', ''--show-current''];
         ((branchOutput, r4), s4) = cmd_Output ex branchCmd s3;
         c4 = c3 @ [branchCmd] in
    (case r4 of
      Some err \<Rightarrow> (Some (Wrapf ''failed to get current branch: '' err), s4, c4)
    | None \<Rightarrow>
    (let branchName = TrimSpace branchOutput;
         pushCmd = [''git'', ''push'', ''-u'', ''origin'', branchName];
         (r5, s5) = cmd_Run ex pushCmd s4;
         c5 = c4 @ [pushCmd] in
    (case r5 of
      Some err \<Rightarrow> (Some (Wrapf ''failed to push changes: '' err), s5, c5)
    | None \<Rightarrow> (None, s5, c5)))))))))))"

definition parseGitHubPath :: "string \<Rightarrow> error + string \<times> string" where
  "parseGitHubPath path0 =
   (let path1 = TrimPrefix path0 ''/'';
        path = (if HasSuffix path1 ''.git'' then take (length path1 - 4) path1 else path1);
        parts = Split path (CHR ''/'') in
    if length parts < 2 then Inl (Errorf (''invalid GitHub path format: '' @ path))
    else Inr (parts ! 0, parts ! 1))"

text \<open>
  The fields of \<^verbatim>\<open>url.URL\<close> that are read. \<^verbatim>\<open>url.Parse\<close> belongs to the Go standard
  library, not to this repository; \<^verbatim>\<open>GetGitHubRepository\<close> takes it as a parameter.
\<close>

record URL =
  Scheme :: string
  Host :: string
  Path :: string

definition GitRunner_GetGitHubRepository ::
  "(string \<Rightarrow> error + URL) \<Rightarrow> 's Exec \<Rightarrow> 's
     \<Rightarrow> (error + string \<times> string) \<times> 's \<times> string list list" where
  "GitRunner_GetGitHubRepository url_Parse ex s0 =
   (let remoteCmd = [''git'', ''remote'', ''get-url'', ''origin''];
        ((output, err), s1) = cmd_Output ex remoteCmd s0 in
    (case err of
      Some e \<Rightarrow> (Inl (Wrapf ''failed to get remote origin URL: '' e), s1, [remoteCmd])
    | None \<Rightarrow>
    (let remoteURL = TrimSpace output in
     if HasPrefix remoteURL ''git@github.com:''
     then (parseGitHubPath (TrimPrefix remoteURL ''git@github.com:''), s1, [remoteCmd])
     else
     (case url_Parse remoteURL of
        Inl e \<Rightarrow> (Inl (Wrapf ''failed to parse remote URL: '' e), s1, [remoteCmd])
      | Inr parsedURL \<Rightarrow>
          if Host parsedURL \<noteq> ''github.com''
          then (Inl (Errorf (''not a GitHub repository: '' @ remoteURL)), s1, [remoteCmd])
          else (parseGitHubPath (Path parsedURL), s1, [remoteCmd])))))"

section \<open>Reading a run\<close>

text \<open>Which capability an event is a call of.\<close>

fun is_RunWithOutput :: "event \<Rightarrow> bool" where
  "is_RunWithOutput (RunWithOutput_call ctx cmd args output err) = True"
| "is_RunWithOutput e = False"

fun is_PostComment :: "event \<Rightarrow> bool" where
  "is_PostComment (PostComment_call n body r) = True"
| "is_PostComment e = False"

fun is_CommitAndPush :: "event \<Rightarrow> bool" where
  "is_CommitAndPush (CommitAndPush_call msg r) = True"
| "is_CommitAndPush e = False"

fun is_CreateWorktree :: "event \<Rightarrow> bool" where
  "is_CreateWorktree (CreateWorktree_call branch path r) = True"
| "is_CreateWorktree e = False"

section \<open>Scripted capabilities\<close>

text \<open>
  An implementation of the three interfaces that answers from a fixed script and counts
  the calls it has served (the state of the world is that count). The lint command of
  the scripted worker is \<^verbatim>\<open>golint\<close>; any other captured command is the test command.
\<close>

record script =
  prInfo_reply :: "error + string"
  worktree_exists :: bool
  agent_reply :: "error option"
  lint_reply :: "string \<times> error option"
  test_reply :: "string \<times> error option"
  comment_reply :: "error option"

definition scripted_Git :: "script \<Rightarrow> nat LocalGit" where
  "scripted_Git sc =
     \<lparr>CheckWorktreeExists = (\<lambda>branch n. (Inr (worktree_exists sc), Suc n)),
      CreateWorktree = (\<lambda>branch path n. (None, Suc n)),
      ChangeDirectory = (\<lambda>path n. (None, Suc n)),
      CommitAndPush = (\<lambda>message n. (None, Suc n)),
      GetWorktreePath = (\<lambda>branch n. (Inr (''/src/kratt-'' @ branch), Suc n)),
      IsGitRepository = (\<lambda>n. (Inr True, Suc n)),
      GetGitHubRepository = (\<lambda>n. (Inr (''acme'', ''widgets''), Suc n)),
      CreateBranch = (\<lambda>branchName n. (None, Suc n)),
      WriteFile = (\<lambda>path content n. (None, Suc n)),
      PushBranchUpstream = (\<lambda>branchName n. (None, Suc n)),
      BranchExists = (\<lambda>branchName n. (Inr False, Suc n))\<rparr>"

definition scripted_GitHub :: "script \<Rightarrow> nat GitHub" where
  "scripted_GitHub sc =
     \<lparr>GetPRInfo = (\<lambda>prNumber n. (prInfo_reply sc, Suc n)),
      PostComment = (\<lambda>prNumber body n. (comment_reply sc, Suc n)),
      CreatePR = (\<lambda>title description n. (None, Suc n))\<rparr>"

definition scripted_Runner :: "script \<Rightarrow> nat CommandRunner" where
  "scripted_Runner sc =
     \<lparr>RunWithStdin = (\<lambda>ctx stdin command args n. (agent_reply sc, Suc n)),
      RunWithOutput = (\<lambda>ctx command args n.
        (if command = ''golint'' then lint_reply sc else test_reply sc, Suc n))\<rparr>"

definition scripted_Worker :: "script \<Rightarrow> nat Worker" where
  "scripted_Worker sc =
     \<lparr>Instructions = ''Address the review comments.'',
      AgentCommand = [''amp'', ''--stdin''],
      LintCommand = [''golint'', ''./...''],
      TestCommand = [''go'', ''test'', ''./...''],
      Deadline = 1800000000000,
      Git = scripted_Git sc,
      GitHub = scripted_GitHub sc,
      Runner = scripted_Runner sc\<rparr>"

text \<open>The pull request of the scripted runs, as \<^verbatim>\<open>gh pr view --json\<close> prints it.\<close>

definition example_prInfo :: string where
  \<open>example_prInfo = ''{"headRefName":"fix-typo","title":"Fix typo"}''\<close>

text \<open>A script in which every call succeeds and no worktree exists yet.\<close>

definition script_ok :: script where
  "script_ok =
     \<lparr>prInfo_reply = Inr example_prInfo,
      worktree_exists = False,
      agent_reply = None,
      lint_reply = ([], None),
      test_reply = (''ok'', None),
      comment_reply = None\<rparr>"

text \<open>An operating system that answers every captured command with the same output
  and lets every command succeed.\<close>

definition scripted_Exec :: "string \<Rightarrow> nat Exec" where
  "scripted_Exec output =
     \<lparr>cmd_Run = (\<lambda>argv n. (None, Suc n)),
      cmd_Output = (\<lambda>argv n. ((output, None), Suc n))\<rparr>"

text \<open>The results of \<^verbatim>\<open>url.Parse\<close> at the two remotes used below; every other input
  is outside the table.\<close>

definition url_Parse_table :: "string \<Rightarrow> error + URL" where
  "url_Parse_table rawURL =
     (if rawURL = ''https://github.com/acme/widgets.git''
      then Inr \<lparr>Scheme = ''https'', Host = ''github.com'', Path = ''/acme/widgets.git''\<rparr>
      else if rawURL = ''https://gitlab.com/acme/widgets.git''
      then Inr \<lparr>Scheme = ''https'', Host = ''gitlab.com'', Path = ''/acme/widgets.git''\<rparr>
      else Inl (Errorf ''not in the table''))"

text \<open>What \<^verbatim>\<open>git worktree list --porcelain\<close> prints for a repository with the main
  worktree and one worktree for the branch \<^verbatim>\<open>feature-2\<close>.\<close>

definition example_worktree_list :: string where
  "example_worktree_list =
     ''worktree /src/kratt'' @ [CHR 0x0A] @ ''HEAD 3f2a9c1'' @ [CHR 0x0A]
     @ ''branch refs/heads/main'' @ [CHR 0x0A] @ [CHR 0x0A]
     @ ''worktree /src/kratt-feature-2'' @ [CHR 0x0A] @ ''HEAD 7d4e0b2'' @ [CHR 0x0A]
     @ ''branch refs/heads/feature-2'' @ [CHR 0x0A] @ [CHR 0x0A]"

section \<open>Shared facts\<close>

lemmas run_splits = prod.splits sum.splits option.splits list.splits if_splits

lemmas scripted_defs =
  scripted_Worker_def scripted_Git_def scripted_GitHub_def scripted_Runner_def script_ok_def

text \<open>A list that occurs between two others is a sublist.\<close>

lemma sublist_middle: "ys = ps @ xs @ ss \<Longrightarrow> sublist xs ys"
  by simp

lemma extract_example: "extractBranchFromPRInfo example_prInfo = Inr ''fix-typo''"
  by code_simp

text \<open>The scripted runs, evaluated.\<close>

lemma run_ok:
  "ProcessPR (scripted_Worker script_ok) 7 0 =
     (Returns None, 11,
      [GetPRInfo_call 7 (Inr example_prInfo),
       CheckWorktreeExists_call ''fix-typo'' (Inr False),
       GetWorktreePath_call ''fix-typo'' (Inr ''/src/kratt-fix-typo''),
       CreateWorktree_call ''fix-typo'' ''/src/kratt-fix-typo'' None,
       GetWorktreePath_call ''fix-typo'' (Inr ''/src/kratt-fix-typo''),
       ChangeDirectory_call ''/src/kratt-fix-typo'' None,
       RunWithStdin_call 1800000000000
         (generatePrompt (scripted_Worker script_ok) example_prInfo) ''amp'' [''--stdin''] None,
       RunWithOutput_call 1800000000000 ''golint'' [''./...''] [] None,
       RunWithOutput_call 1800000000000 ''go'' [''test'', ''./...''] ''ok'' None,
       PostComment_call 7 (formatResultsComment [] None ''ok'' None) None,
       CommitAndPush_call ''Automated changes from kratt worker'' None])"
  by (simp add: ProcessPR_def scripted_defs extract_example Let_def generatePrompt_def)

lemma run_existing_worktree:
  "ProcessPR (scripted_Worker (script_ok\<lparr>worktree_exists := True\<rparr>)) 7 0 =
     (Returns None, 9,
      [GetPRInfo_call 7 (Inr example_prInfo),
       CheckWorktreeExists_call ''fix-typo'' (Inr True),
       GetWorktreePath_call ''fix-typo'' (Inr ''/src/kratt-fix-typo''),
       ChangeDirectory_call ''/src/kratt-fix-typo'' None,
       RunWithStdin_call 1800000000000
         (generatePrompt (scripted_Worker script_ok) example_prInfo) ''amp'' [''--stdin''] None,
       RunWithOutput_call 1800000000000 ''golint'' [''./...''] [] None,
       RunWithOutput_call 1800000000000 ''go'' [''test'', ''./...''] ''ok'' None,
       PostComment_call 7 (formatResultsComment [] None ''ok'' None) None,
       CommitAndPush_call ''Automated changes from kratt worker'' None])"
  by (simp add: ProcessPR_def scripted_defs extract_example Let_def generatePrompt_def)

section \<open>ProcessPR: a failing agent ends the run\<close>

text \<open>
  Claim C1. In every run of \<^verbatim>\<open>ProcessPR\<close> in which the call of \<^verbatim>\<open>RunWithStdin\<close> (the agent
  step) returns an error, \<^verbatim>\<open>ProcessPR\<close> returns that error, wrapped as
  \<^verbatim>\<open>failed to run agent: ...\<close>, and the agent call is the last call of the run: no
  \<^verbatim>\<open>RunWithOutput\<close> (neither lint nor test), no \<^verbatim>\<open>PostComment\<close> and no \<^verbatim>\<open>CommitAndPush\<close>
  is called.
\<close>

theorem agent_failure_aborts:
  assumes "ProcessPR w prNumber s = (out, s', tr)"
      and "RunWithStdin_call ctx stdin cmd args (Some err) \<in> set tr"
  shows "out = Returns (Some (Wrapf ''failed to run agent: '' err)) \<and>
         last tr = RunWithStdin_call ctx stdin cmd args (Some err) \<and>
         (\<forall>c p a output e. RunWithOutput_call c p a output e \<notin> set tr) \<and>
         (\<forall>n body r. PostComment_call n body r \<notin> set tr) \<and>
         (\<forall>msg r. CommitAndPush_call msg r \<notin> set tr)"
  using assms unfolding ProcessPR_def
  by (auto simp: Let_def split: run_splits)

theorem agent_failure_aborts_witness:
  "RunWithStdin_call 1800000000000
      (generatePrompt (scripted_Worker script_ok) example_prInfo) ''amp'' [''--stdin'']
      (Some (Errorf ''exit status 1''))
     \<in> set (snd (snd (ProcessPR
          (scripted_Worker (script_ok\<lparr>agent_reply := Some (Errorf ''exit status 1'')\<rparr>)) 7 0)))
   \<and> fst (ProcessPR
          (scripted_Worker (script_ok\<lparr>agent_reply := Some (Errorf ''exit status 1'')\<rparr>)) 7 0)
       = Returns (Some (Wrapf ''failed to run agent: '' (Errorf ''exit status 1'')))
   \<and> filter is_PostComment (snd (snd (ProcessPR
          (scripted_Worker (script_ok\<lparr>agent_reply := Some (Errorf ''exit status 1'')\<rparr>)) 7 0)))
       = []"
proof -
  let ?w = "scripted_Worker (script_ok\<lparr>agent_reply := Some (Errorf ''exit status 1'')\<rparr>)"
  let ?agent = "RunWithStdin_call 1800000000000
      (generatePrompt (scripted_Worker script_ok) example_prInfo) ''amp'' [''--stdin'']
      (Some (Errorf ''exit status 1''))"
  let ?tr = "[GetPRInfo_call 7 (Inr example_prInfo),
      CheckWorktreeExists_call ''fix-typo'' (Inr False),
      GetWorktreePath_call ''fix-typo'' (Inr ''/src/kratt-fix-typo''),
      CreateWorktree_call ''fix-typo'' ''/src/kratt-fix-typo'' None,
      GetWorktreePath_call ''fix-typo'' (Inr ''/src/kratt-fix-typo''),
      ChangeDirectory_call ''/src/kratt-fix-typo'' None, ?agent]"
  have run: "ProcessPR ?w 7 0 =
      (Returns (Some (Wrapf ''failed to run agent: '' (Errorf ''exit status 1''))), 7, ?tr)"
    by (simp add: ProcessPR_def scripted_defs extract_example Let_def generatePrompt_def)
  have failed: "?agent \<in> set ?tr"
    by simp
  from agent_failure_aborts [OF run failed] show ?thesis
    by (simp add: run)
qed

section \<open>ProcessPR: no branch, no mutation\<close>

text \<open>
  Claim C3. When \<^verbatim>\<open>GetPRInfo\<close> delivers an info string in which none of the three
  patterns matches (no \<^verbatim>\<open>"headRefName"\<close> field, no \<^verbatim>\<open>branch:\<close> and no \<^verbatim>\<open>head:\<close>
  pattern), \<^verbatim>\<open>ProcessPR\<close> returns the branch-resolution error, the only call of the run
  is \<^verbatim>\<open>GetPRInfo\<close> and the world is left as \<^verbatim>\<open>GetPRInfo\<close> left it: no worktree is
  checked or created, no directory is changed, no command is run, no comment is posted
  and nothing is committed.
\<close>

theorem unresolvable_branch_aborts_first:
  assumes "GetPRInfo (GitHub w) prNumber s = (Inr prInfo, s1)"
      and "FindStringSubmatch match_headRefName prInfo = None"
      and "FindStringSubmatch (match_keyword ''branch:'') prInfo = None"
      and "FindStringSubmatch (match_keyword ''head:'') prInfo = None"
  shows "ProcessPR w prNumber s =
           (Returns (Some (Wrapf ''failed to extract branch from PR info: ''
                       (Errorf ''could not extract branch name from PR info''))),
            s1, [GetPRInfo_call prNumber (Inr prInfo)])"
  using assms by (simp add: ProcessPR_def extractBranchFromPRInfo_def)


theorem unresolvable_branch_aborts_first_witness:
  \<open>ProcessPR (scripted_Worker (script_ok\<lparr>prInfo_reply := Inr ''{"title":"Fix typo"}''\<rparr>)) 7 0 =
     (Returns (Some (Wrapf ''failed to extract branch from PR info: ''
                 (Errorf ''could not extract branch name from PR info''))),
      1, [GetPRInfo_call 7 (Inr ''{"title":"Fix typo"}'')])\<close>
proof -
  let ?w = \<open>scripted_Worker (script_ok\<lparr>prInfo_reply := Inr ''{"title":"Fix typo"}''\<rparr>)\<close>
  have fetched: \<open>GetPRInfo (GitHub ?w) 7 0 = (Inr ''{"title":"Fix typo"}'', 1)\<close>
    by (simp add: scripted_defs)
  have no_field: \<open>FindStringSubmatch match_headRefName ''{"title":"Fix typo"}'' = None\<close>
    by code_simp
  have no_branch: \<open>FindStringSubmatch (match_keyword ''branch:'') ''{"title":"Fix typo"}'' = None\<close>
    by code_simp
  have no_head: \<open>FindStringSubmatch (match_keyword ''head:'') ''{"title":"Fix typo"}'' = None\<close>
    by code_simp
  from unresolvable_branch_aborts_first [OF fetched no_field no_branch no_head]
  show ?thesis .
qed

section \<open>ProcessPR: an unposted report is not committed\<close>

text \<open>
  Claim C4. In every run of \<^verbatim>\<open>ProcessPR\<close> in which \<^verbatim>\<open>PostComment\<close> returns an error,
  \<^verbatim>\<open>ProcessPR\<close> returns that error wrapped as \<^verbatim>\<open>failed to post comment: ...\<close>, the
  \<^verbatim>\<open>PostComment\<close> call is the last call of the run and \<^verbatim>\<open>CommitAndPush\<close> is never
  called.
\<close>

theorem failed_report_is_not_committed:
  assumes "ProcessPR w prNumber s = (out, s', tr)"
      and "PostComment_call n body (Some err) \<in> set tr"
  shows "out = Returns (Some (Wrapf ''failed to post comment: '' err)) \<and>
         last tr = PostComment_call n body (Some err) \<and>
         (\<forall>msg r. CommitAndPush_call msg r \<notin> set tr)"
  using assms unfolding ProcessPR_def
  by (auto simp: Let_def split: run_splits)


theorem failed_report_is_not_committed_witness:
  "PostComment_call 7 (formatResultsComment [] None ''ok'' None) (Some (Errorf ''HTTP 403''))
     \<in> set (snd (snd (ProcessPR
          (scripted_Worker (script_ok\<lparr>comment_reply := Some (Errorf ''HTTP 403'')\<rparr>)) 7 0)))
   \<and> fst (ProcessPR
          (scripted_Worker (script_ok\<lparr>comment_reply := Some (Errorf ''HTTP 403'')\<rparr>)) 7 0)
       = Returns (Some (Wrapf ''failed to post comment: '' (Errorf ''HTTP 403'')))
   \<and> filter is_CommitAndPush (snd (snd (ProcessPR
          (scripted_Worker (script_ok\<lparr>comment_reply := Some (Errorf ''HTTP 403'')\<rparr>)) 7 0)))
       = []"
proof -
  let ?w = "scripted_Worker (script_ok\<lparr>comment_reply := Some (Errorf ''HTTP 403'')\<rparr>)"
  let ?post = "PostComment_call 7 (formatResultsComment [] None ''ok'' None)
      (Some (Errorf ''HTTP 403''))"
  let ?tr = "[GetPRInfo_call 7 (Inr example_prInfo),
      CheckWorktreeExists_call ''fix-typo'' (Inr False),
      GetWorktreePath_call ''fix-typo'' (Inr ''/src/kratt-fix-typo''),
      CreateWorktree_call ''fix-typo'' ''/src/kratt-fix-typo'' None,
      GetWorktreePath_call ''fix-typo'' (Inr ''/src/kratt-fix-typo''),
      ChangeDirectory_call ''/src/kratt-fix-typo'' None,
      RunWithStdin_call 1800000000000
        (generatePrompt (scripted_Worker script_ok) example_prInfo) ''amp'' [''--stdin''] None,
      RunWithOutput_call 1800000000000 ''golint'' [''./...''] [] None,
      RunWithOutput_call 1800000000000 ''go'' [''test'', ''./...''] ''ok'' None,
      ?post]"
  have run: "ProcessPR ?w 7 0 =
      (Returns (Some (Wrapf ''failed to post comment: '' (Errorf ''HTTP 403''))), 10, ?tr)"
    by (simp add: ProcessPR_def scripted_defs extract_example Let_def generatePrompt_def)
  have failed: "?post \<in> set ?tr"
    by simp
  from failed_report_is_not_committed [OF run failed] show ?thesis
    by (simp add: run)
qed

section \<open>ProcessPR: the worktree is checked before it is created\<close>

text \<open>
  Claim C5. In every run of \<^verbatim>\<open>ProcessPR\<close>: \<^verbatim>\<open>CreateWorktree\<close> is called at most once; a
  call of \<^verbatim>\<open>CreateWorktree\<close> for a branch comes after a call of \<^verbatim>\<open>CheckWorktreeExists\<close>
  for the same branch that answered \<^verbatim>\<open>false\<close>; when \<^verbatim>\<open>CheckWorktreeExists\<close> answers
  \<^verbatim>\<open>true\<close>, \<^verbatim>\<open>CreateWorktree\<close> is not called at all; and when the info of the pull
  request resolves to a branch, the call after \<^verbatim>\<open>GetPRInfo\<close> is \<^verbatim>\<open>CheckWorktreeExists\<close>
  for that branch, and no other branch is ever checked.
\<close>

theorem worktree_checked_before_created:
  assumes "ProcessPR w prNumber s = (out, s', tr)"
  shows "length (filter is_CreateWorktree tr) \<le> 1 \<and>
         (\<forall>b p r. CreateWorktree_call b p r \<in> set tr \<longrightarrow>
            CheckWorktreeExists_call b (Inr False)
              \<in> set (takeWhile (\<lambda>e. \<not> is_CreateWorktree e) tr)) \<and>
         (\<forall>b. CheckWorktreeExists_call b (Inr True) \<in> set tr \<longrightarrow>
            filter is_CreateWorktree tr = []) \<and>
         (\<forall>prInfo branch.
            GetPRInfo_call prNumber (Inr prInfo) \<in> set tr \<longrightarrow>
            extractBranchFromPRInfo prInfo = Inr branch \<longrightarrow>
            (\<exists>r. tr ! 1 = CheckWorktreeExists_call branch r) \<and>
            (\<forall>b r. CheckWorktreeExists_call b r \<in> set tr \<longrightarrow> b = branch))"
  using assms unfolding ProcessPR_def
  by (auto simp: Let_def split: run_splits)


theorem worktree_checked_before_created_witness:
  "CreateWorktree_call ''fix-typo'' ''/src/kratt-fix-typo'' None
     \<in> set (snd (snd (ProcessPR (scripted_Worker script_ok) 7 0)))
   \<and> CheckWorktreeExists_call ''fix-typo'' (Inr False)
     \<in> set (takeWhile (\<lambda>e. \<not> is_CreateWorktree e)
          (snd (snd (ProcessPR (scripted_Worker script_ok) 7 0))))
   \<and> length (filter is_CreateWorktree
          (snd (snd (ProcessPR (scripted_Worker script_ok) 7 0)))) = 1
   \<and> CheckWorktreeExists_call ''fix-typo'' (Inr True)
     \<in> set (snd (snd (ProcessPR (scripted_Worker (script_ok\<lparr>worktree_exists := True\<rparr>)) 7 0)))
   \<and> filter is_CreateWorktree
        (snd (snd (ProcessPR (scripted_Worker (script_ok\<lparr>worktree_exists := True\<rparr>)) 7 0)))
       = []
   \<and> GetPRInfo_call 7 (Inr example_prInfo)
     \<in> set (snd (snd (ProcessPR (scripted_Worker script_ok) 7 0)))
   \<and> extractBranchFromPRInfo example_prInfo = Inr ''fix-typo''
   \<and> snd (snd (ProcessPR (scripted_Worker script_ok) 7 0)) ! 1
       = CheckWorktreeExists_call ''fix-typo'' (Inr False)"
proof -
  note created_run = worktree_checked_before_created [OF run_ok]
  note reused_run = worktree_checked_before_created [OF run_existing_worktree]
  let ?tr = "snd (snd (ProcessPR (scripted_Worker script_ok) 7 0))"
  let ?tr' = "snd (snd (ProcessPR (scripted_Worker (script_ok\<lparr>worktree_exists := True\<rparr>)) 7 0))"
  have created: "CreateWorktree_call ''fix-typo'' ''/src/kratt-fix-typo'' None \<in> set ?tr"
    by (simp add: run_ok)
  from created_run created
  have checked: "CheckWorktreeExists_call ''fix-typo'' (Inr False)
      \<in> set (takeWhile (\<lambda>e. \<not> is_CreateWorktree e) ?tr)"
    unfolding run_ok snd_conv by blast
  have exists: "CheckWorktreeExists_call ''fix-typo'' (Inr True) \<in> set ?tr'"
    by (simp add: run_existing_worktree)
  from reused_run exists have none: "filter is_CreateWorktree ?tr' = []"
    unfolding run_existing_worktree snd_conv by blast
  have rest: "length (filter is_CreateWorktree ?tr) = 1
      \<and> GetPRInfo_call 7 (Inr example_prInfo) \<in> set ?tr
      \<and> ?tr ! 1 = CheckWorktreeExists_call ''fix-typo'' (Inr False)"
    by (simp add: run_ok)
  from created checked exists none rest extract_example show ?thesis
    by blast
qed

section \<open>ProcessPR: failing checks are reported, not fatal\<close>

lemma lint_marker_in_comment:
  "sublist (''### Lint Results'' @ [CHR 0x0A]
              @ (if lintErr = None then passed_marker else failed_marker))
     (formatResultsComment lintOutput lintErr testOutput testErr)"
proof -
  have "\<exists>ss. formatResultsComment lintOutput lintErr testOutput testErr =
      (''## Kratt Worker Results'' @ [CHR 0x0A, CHR 0x0A])
      @ (''### Lint Results'' @ [CHR 0x0A]
           @ (if lintErr = None then passed_marker else failed_marker)) @ ss"
    by (cases lintErr) (simp_all add: formatResultsComment_def)
  then show ?thesis
    unfolding sublist_def by blast
qed

lemma test_marker_in_comment:
  "sublist (''### Test Results'' @ [CHR 0x0A]
              @ (if testErr = None then passed_marker else failed_marker))
     (formatResultsComment lintOutput lintErr testOutput testErr)"
proof -
  define ps where "ps = ''## Kratt Worker Results'' @ [CHR 0x0A, CHR 0x0A]
     @ ''### Lint Results'' @ [CHR 0x0A]
     @ (case lintErr of
          Some err \<Rightarrow> failed_marker @ fence_open @ Error err @ fence_close
        | None \<Rightarrow> passed_marker)
     @ (if length lintOutput > 0 then fence_open @ lintOutput @ fence_close else [])
     @ [CHR 0x0A]"
  have "\<exists>ss. formatResultsComment lintOutput lintErr testOutput testErr =
      ps @ (''### Test Results'' @ [CHR 0x0A]
           @ (if testErr = None then passed_marker else failed_marker)) @ ss"
    by (cases testErr) (simp_all add: formatResultsComment_def ps_def)
  then show ?thesis
    unfolding sublist_def by blast
qed

lemma lint_output_in_comment:
  assumes "lintOutput \<noteq> []"
  shows "sublist (fence_open @ lintOutput @ fence_close)
     (formatResultsComment lintOutput lintErr testOutput testErr)"
proof -
  define ps where "ps = ''## Kratt Worker Results'' @ [CHR 0x0A, CHR 0x0A]
     @ ''### Lint Results'' @ [CHR 0x0A]
     @ (case lintErr of
          Some err \<Rightarrow> failed_marker @ fence_open @ Error err @ fence_close
        | None \<Rightarrow> passed_marker)"
  have "\<exists>ss. formatResultsComment lintOutput lintErr testOutput testErr =
      ps @ (fence_open @ lintOutput @ fence_close) @ ss"
    using assms by (simp add: formatResultsComment_def ps_def)
  then show ?thesis
    unfolding sublist_def by blast
qed

lemma test_output_in_comment:
  assumes "testOutput \<noteq> []"
  shows "sublist (fence_open @ testOutput @ fence_close)
     (formatResultsComment lintOutput lintErr testOutput testErr)"
proof -
  define ps where "ps = ''## Kratt Worker Results'' @ [CHR 0x0A, CHR 0x0A]
     @ ''### Lint Results'' @ [CHR 0x0A]
     @ (case lintErr of
          Some err \<Rightarrow> failed_marker @ fence_open @ Error err @ fence_close
        | None \<Rightarrow> passed_marker)
     @ (if length lintOutput > 0 then fence_open @ lintOutput @ fence_close else [])
     @ [CHR 0x0A]
     @ ''### Test Results'' @ [CHR 0x0A]
     @ (case testErr of
          Some err \<Rightarrow> failed_marker @ fence_open @ Error err @ fence_close
        | None \<Rightarrow> passed_marker)"
  have "formatResultsComment lintOutput lintErr testOutput testErr =
      ps @ (fence_open @ testOutput @ fence_close) @ []"
    using assms by (simp add: formatResultsComment_def ps_def)
  then show ?thesis
    by (rule sublist_middle)
qed

lemma checks_shape:
  assumes "ProcessPR w prNumber s = (out, s', tr)"
      and "RunWithStdin_call ctx stdin cmd args None \<in> set tr"
      and "LintCommand w = lint # lintArgs"
      and "TestCommand w = test # testArgs"
  shows "\<exists>lintOutput lintErr testOutput testErr posted rest.
           dropWhile (\<lambda>e. \<not> is_RunWithOutput e) tr =
             RunWithOutput_call ctx lint lintArgs lintOutput lintErr #
             RunWithOutput_call ctx test testArgs testOutput testErr #
             PostComment_call prNumber
                (formatResultsComment lintOutput lintErr testOutput testErr) posted # rest \<and>
           length (filter is_PostComment tr) = 1 \<and>
           (posted = None \<longrightarrow>
              (\<exists>r. rest = [CommitAndPush_call ''Automated changes from kratt worker'' r])) \<and>
           (posted \<noteq> None \<longrightarrow> rest = [])"
  using assms unfolding ProcessPR_def
  by (auto simp: Let_def split: run_splits)

lemma run_lint_fails:
  "ProcessPR (scripted_Worker
       (script_ok\<lparr>lint_reply := (''main.go:3: unused'', Some (Errorf ''exit status 1''))\<rparr>)) 7 0 =
     (Returns None, 11,
      [GetPRInfo_call 7 (Inr example_prInfo),
       CheckWorktreeExists_call ''fix-typo'' (Inr False),
       GetWorktreePath_call ''fix-typo'' (Inr ''/src/kratt-fix-typo''),
       CreateWorktree_call ''fix-typo'' ''/src/kratt-fix-typo'' None,
       GetWorktreePath_call ''fix-typo'' (Inr ''/src/kratt-fix-typo''),
       ChangeDirectory_call ''/src/kratt-fix-typo'' None,
       RunWithStdin_call 1800000000000
         (generatePrompt (scripted_Worker script_ok) example_prInfo) ''amp'' [''--stdin''] None,
       RunWithOutput_call 1800000000000 ''golint'' [''./...''] ''main.go:3: unused''
         (Some (Errorf ''exit status 1'')),
       RunWithOutput_call 1800000000000 ''go'' [''test'', ''./...''] ''ok'' None,
       PostComment_call 7
         (formatResultsComment ''main.go:3: unused'' (Some (Errorf ''exit status 1'')) ''ok'' None)
         None,
       CommitAndPush_call ''Automated changes from kratt worker'' None])"
  by (simp add: ProcessPR_def scripted_defs extract_example Let_def generatePrompt_def)

lemma run_lint_and_comment_fail:
  "ProcessPR (scripted_Worker
       (script_ok\<lparr>lint_reply := (''main.go:3: unused'', Some (Errorf ''exit status 1'')),
                   comment_reply := Some (Errorf ''HTTP 403'')\<rparr>)) 7 0 =
     (Returns (Some (Wrapf ''failed to post comment: '' (Errorf ''HTTP 403''))), 10,
      [GetPRInfo_call 7 (Inr example_prInfo),
       CheckWorktreeExists_call ''fix-typo'' (Inr False),
       GetWorktreePath_call ''fix-typo'' (Inr ''/src/kratt-fix-typo''),
       CreateWorktree_call ''fix-typo'' ''/src/kratt-fix-typo'' None,
       GetWorktreePath_call ''fix-typo'' (Inr ''/src/kratt-fix-typo''),
       ChangeDirectory_call ''/src/kratt-fix-typo'' None,
       RunWithStdin_call 1800000000000
         (generatePrompt (scripted_Worker script_ok) example_prInfo) ''amp'' [''--stdin''] None,
       RunWithOutput_call 1800000000000 ''golint'' [''./...''] ''main.go:3: unused''
         (Some (Errorf ''exit status 1'')),
       RunWithOutput_call 1800000000000 ''go'' [''test'', ''./...''] ''ok'' None,
       PostComment_call 7
         (formatResultsComment ''main.go:3: unused'' (Some (Errorf ''exit status 1'')) ''ok'' None)
         (Some (Errorf ''HTTP 403''))])"
  by (simp add: ProcessPR_def scripted_defs extract_example Let_def generatePrompt_def)

text \<open>
  Claim C2, as amended. In every run of \<^verbatim>\<open>ProcessPR\<close> in which the agent step has
  succeeded and the lint and test command vectors are not empty, both checks are run and,
  whether they fail or pass, \<^verbatim>\<open>PostComment\<close> is called exactly once, right after them,
  with the comment made from their output and errors. That comment contains, under the
  heading of each check, the failure marker when the check failed and the success marker
  when it passed, and each non-empty captured output between fences. When \<^verbatim>\<open>PostComment\<close>
  succeeds, the next and last call is \<^verbatim>\<open>CommitAndPush\<close>; when it fails, the run ends there
  (the claim as stated lets the run proceed to \<^verbatim>\<open>CommitAndPush\<close> in every case).
\<close>

theorem check_failures_are_reported:
  assumes "ProcessPR w prNumber s = (out, s', tr)"
      and "RunWithStdin_call ctx stdin cmd args None \<in> set tr"
      and "LintCommand w = lint # lintArgs"
      and "TestCommand w = test # testArgs"
  shows "\<exists>lintOutput lintErr testOutput testErr body posted rest.
           body = formatResultsComment lintOutput lintErr testOutput testErr \<and>
           dropWhile (\<lambda>e. \<not> is_RunWithOutput e) tr =
             RunWithOutput_call ctx lint lintArgs lintOutput lintErr #
             RunWithOutput_call ctx test testArgs testOutput testErr #
             PostComment_call prNumber body posted # rest \<and>
           length (filter is_PostComment tr) = 1 \<and>
           sublist (''### Lint Results'' @ [CHR 0x0A]
                      @ (if lintErr = None then passed_marker else failed_marker)) body \<and>
           sublist (''### Test Results'' @ [CHR 0x0A]
                      @ (if testErr = None then passed_marker else failed_marker)) body \<and>
           (lintOutput \<noteq> [] \<longrightarrow> sublist (fence_open @ lintOutput @ fence_close) body) \<and>
           (testOutput \<noteq> [] \<longrightarrow> sublist (fence_open @ testOutput @ fence_close) body) \<and>
           (posted = None \<longrightarrow>
              (\<exists>r. rest = [CommitAndPush_call ''Automated changes from kratt worker'' r])) \<and>
           (posted \<noteq> None \<longrightarrow> rest = [])"
proof -
  from checks_shape [OF assms]
  obtain lintOutput lintErr testOutput testErr posted rest where
    shape: "dropWhile (\<lambda>e. \<not> is_RunWithOutput e) tr =
             RunWithOutput_call ctx lint lintArgs lintOutput lintErr #
             RunWithOutput_call ctx test testArgs testOutput testErr #
             PostComment_call prNumber
                (formatResultsComment lintOutput lintErr testOutput testErr) posted # rest"
    and once: "length (filter is_PostComment tr) = 1"
    and commit: "posted = None \<longrightarrow>
              (\<exists>r. rest = [CommitAndPush_call ''Automated changes from kratt worker'' r])"
    and abort: "posted \<noteq> None \<longrightarrow> rest = []"
    by blast
  show ?thesis
    apply (rule exI [of _ lintOutput], rule exI [of _ lintErr])
    apply (rule exI [of _ testOutput], rule exI [of _ testErr])
    apply (rule exI [of _ "formatResultsComment lintOutput lintErr testOutput testErr"])
    apply (rule exI [of _ posted], rule exI [of _ rest])
    using shape once commit abort
      lint_marker_in_comment [of lintErr lintOutput testOutput testErr]
      test_marker_in_comment [of testErr lintOutput lintErr testOutput]
      lint_output_in_comment [of lintOutput lintErr testOutput testErr]
      test_output_in_comment [of testOutput lintOutput lintErr testErr]
    by blast
qed

theorem check_failures_are_reported_witness:
  "RunWithStdin_call 1800000000000
      (generatePrompt (scripted_Worker script_ok) example_prInfo) ''amp'' [''--stdin''] None
     \<in> set (snd (snd (ProcessPR (scripted_Worker
          (script_ok\<lparr>lint_reply := (''main.go:3: unused'', Some (Errorf ''exit status 1''))\<rparr>)) 7 0)))
   \<and> LintCommand (scripted_Worker
          (script_ok\<lparr>lint_reply := (''main.go:3: unused'', Some (Errorf ''exit status 1''))\<rparr>))
       = ''golint'' # [''./...'']
   \<and> TestCommand (scripted_Worker
          (script_ok\<lparr>lint_reply := (''main.go:3: unused'', Some (Errorf ''exit status 1''))\<rparr>))
       = ''go'' # [''test'', ''./...'']
   \<and> length (filter is_PostComment (snd (snd (ProcessPR (scripted_Worker
          (script_ok\<lparr>lint_reply := (''main.go:3: unused'', Some (Errorf ''exit status 1''))\<rparr>)) 7 0))))
       = 1
   \<and> last (snd (snd (ProcessPR (scripted_Worker
          (script_ok\<lparr>lint_reply := (''main.go:3: unused'', Some (Errorf ''exit status 1''))\<rparr>)) 7 0)))
       = CommitAndPush_call ''Automated changes from kratt worker'' None"
proof -
  let ?w = "scripted_Worker
      (script_ok\<lparr>lint_reply := (''main.go:3: unused'', Some (Errorf ''exit status 1''))\<rparr>)"
  have run: "ProcessPR ?w 7 0 =
      (fst (ProcessPR ?w 7 0), fst (snd (ProcessPR ?w 7 0)), snd (snd (ProcessPR ?w 7 0)))"
    by simp
  have agent: "RunWithStdin_call 1800000000000
      (generatePrompt (scripted_Worker script_ok) example_prInfo) ''amp'' [''--stdin''] None
     \<in> set (snd (snd (ProcessPR ?w 7 0)))"
    by (simp add: run_lint_fails)
  have lint: "LintCommand ?w = ''golint'' # [''./...'']"
    by (simp add: scripted_Worker_def)
  have test: "TestCommand ?w = ''go'' # [''test'', ''./...'']"
    by (simp add: scripted_Worker_def)
  from check_failures_are_reported [OF run agent lint test]
  have once: "length (filter is_PostComment (snd (snd (ProcessPR ?w 7 0)))) = 1"
    by blast
  have committed: "last (snd (snd (ProcessPR ?w 7 0)))
      = CommitAndPush_call ''Automated changes from kratt worker'' None"
    by (simp add: run_lint_fails)
  from agent lint test once committed show ?thesis
    by blast
qed

theorem check_failures_are_reported_counterexample:
  "RunWithOutput_call 1800000000000 ''golint'' [''./...''] ''main.go:3: unused''
      (Some (Errorf ''exit status 1''))
     \<in> set (snd (snd (ProcessPR (scripted_Worker
          (script_ok\<lparr>lint_reply := (''main.go:3: unused'', Some (Errorf ''exit status 1'')),
                      comment_reply := Some (Errorf ''HTTP 403'')\<rparr>)) 7 0)))
   \<and> length (filter is_PostComment (snd (snd (ProcessPR (scripted_Worker
          (script_ok\<lparr>lint_reply := (''main.go:3: unused'', Some (Errorf ''exit status 1'')),
                      comment_reply := Some (Errorf ''HTTP 403'')\<rparr>)) 7 0)))) = 1
   \<and> filter is_CommitAndPush (snd (snd (ProcessPR (scripted_Worker
          (script_ok\<lparr>lint_reply := (''main.go:3: unused'', Some (Errorf ''exit status 1'')),
                      comment_reply := Some (Errorf ''HTTP 403'')\<rparr>)) 7 0))) = []
   \<and> fst (ProcessPR (scripted_Worker
          (script_ok\<lparr>lint_reply := (''main.go:3: unused'', Some (Errorf ''exit status 1'')),
                      comment_reply := Some (Errorf ''HTTP 403'')\<rparr>)) 7 0)
       = Returns (Some (Wrapf ''failed to post comment: '' (Errorf ''HTTP 403'')))"
  by (simp add: run_lint_and_comment_fail)

section \<open>ProcessPR: empty command vectors\<close>

lemma run_no_agent_command:
  "ProcessPR ((scripted_Worker script_ok)\<lparr>AgentCommand := []\<rparr>) 7 0 =
     (Panics, 6,
      [GetPRInfo_call 7 (Inr example_prInfo),
       CheckWorktreeExists_call ''fix-typo'' (Inr False),
       GetWorktreePath_call ''fix-typo'' (Inr ''/src/kratt-fix-typo''),
       CreateWorktree_call ''fix-typo'' ''/src/kratt-fix-typo'' None,
       GetWorktreePath_call ''fix-typo'' (Inr ''/src/kratt-fix-typo''),
       ChangeDirectory_call ''/src/kratt-fix-typo'' None])"
  by (simp add: ProcessPR_def scripted_defs extract_example Let_def generatePrompt_def)

lemma run_no_test_command:
  "ProcessPR ((scripted_Worker script_ok)\<lparr>TestCommand := []\<rparr>) 7 0 =
     (Panics, 8,
      [GetPRInfo_call 7 (Inr example_prInfo),
       CheckWorktreeExists_call ''fix-typo'' (Inr False),
       GetWorktreePath_call ''fix-typo'' (Inr ''/src/kratt-fix-typo''),
       CreateWorktree_call ''fix-typo'' ''/src/kratt-fix-typo'' None,
       GetWorktreePath_call ''fix-typo'' (Inr ''/src/kratt-fix-typo''),
       ChangeDirectory_call ''/src/kratt-fix-typo'' None,
       RunWithStdin_call 1800000000000
         (generatePrompt (scripted_Worker script_ok) example_prInfo) ''amp'' [''--stdin''] None,
       RunWithOutput_call 1800000000000 ''golint'' [''./...''] [] None])"
  by (simp add: ProcessPR_def scripted_defs extract_example Let_def generatePrompt_def)

lemma run_no_agent_command_unknown_pr:
  "ProcessPR ((scripted_Worker
        (script_ok\<lparr>prInfo_reply := Inl (Errorf ''PR #7 not found'')\<rparr>))\<lparr>AgentCommand := []\<rparr>) 7 0 =
     (Returns (Some (Wrapf ''failed to get PR info: '' (Errorf ''PR #7 not found''))), 1,
      [GetPRInfo_call 7 (Inl (Errorf ''PR #7 not found''))])"
  by (simp add: ProcessPR_def scripted_defs Let_def)

text \<open>
  Claim C9, as amended. \<^verbatim>\<open>ProcessPR\<close> reads element 0 of \<^verbatim>\<open>AgentCommand\<close>,
  \<^verbatim>\<open>LintCommand\<close> and \<^verbatim>\<open>TestCommand\<close> without a guard. When all three are non-empty
  no run panics. A run panics exactly when it reaches the read of an empty vector: the
  directory change has succeeded and \<^verbatim>\<open>AgentCommand\<close> is empty, or the agent has
  succeeded and \<^verbatim>\<open>LintCommand\<close> or \<^verbatim>\<open>TestCommand\<close> is empty. A run that panics posts
  no comment and commits nothing. (A run that fails before the read returns that error
  although a vector is empty, so an empty vector alone does not make the run panic.)
\<close>

theorem empty_command_vector_panics:
  assumes "ProcessPR w prNumber s = (out, s', tr)"
  shows "(AgentCommand w \<noteq> [] \<and> LintCommand w \<noteq> [] \<and> TestCommand w \<noteq> [] \<longrightarrow> out \<noteq> Panics) \<and>
         (out = Panics \<longleftrightarrow>
            (\<exists>path. ChangeDirectory_call path None \<in> set tr) \<and>
            (AgentCommand w = [] \<or>
             (\<exists>ctx stdin cmd args. RunWithStdin_call ctx stdin cmd args None \<in> set tr) \<and>
             (LintCommand w = [] \<or> TestCommand w = []))) \<and>
         (out = Panics \<longrightarrow>
            (\<forall>n body r. PostComment_call n body r \<notin> set tr) \<and>
            (\<forall>msg r. CommitAndPush_call msg r \<notin> set tr))"
  using assms unfolding ProcessPR_def
  by (auto simp: Let_def split: run_splits)

theorem empty_command_vector_panics_witness:
  "AgentCommand (scripted_Worker script_ok) \<noteq> []
   \<and> LintCommand (scripted_Worker script_ok) \<noteq> []
   \<and> TestCommand (scripted_Worker script_ok) \<noteq> []
   \<and> fst (ProcessPR (scripted_Worker script_ok) 7 0) \<noteq> Panics
   \<and> AgentCommand ((scripted_Worker script_ok)\<lparr>AgentCommand := []\<rparr>) = []
   \<and> ChangeDirectory_call ''/src/kratt-fix-typo'' None
       \<in> set (snd (snd (ProcessPR ((scripted_Worker script_ok)\<lparr>AgentCommand := []\<rparr>) 7 0)))
   \<and> fst (ProcessPR ((scripted_Worker script_ok)\<lparr>AgentCommand := []\<rparr>) 7 0) = Panics"
proof -
  let ?w = "scripted_Worker script_ok"
  let ?w' = "(scripted_Worker script_ok)\<lparr>AgentCommand := []\<rparr>"
  have vectors: "AgentCommand ?w \<noteq> [] \<and> LintCommand ?w \<noteq> [] \<and> TestCommand ?w \<noteq> []"
    by (simp add: scripted_Worker_def)
  have run: "ProcessPR ?w 7 0 =
      (fst (ProcessPR ?w 7 0), fst (snd (ProcessPR ?w 7 0)), snd (snd (ProcessPR ?w 7 0)))"
    by simp
  from empty_command_vector_panics [OF run] vectors
  have safe: "fst (ProcessPR ?w 7 0) \<noteq> Panics"
    by blast
  have empty: "AgentCommand ?w' = []"
    by simp
  have changed: "ChangeDirectory_call ''/src/kratt-fix-typo'' None
      \<in> set (snd (snd (ProcessPR ?w' 7 0)))"
    by (simp add: run_no_agent_command)
  have run': "ProcessPR ?w' 7 0 =
      (fst (ProcessPR ?w' 7 0), fst (snd (ProcessPR ?w' 7 0)), snd (snd (ProcessPR ?w' 7 0)))"
    by simp
  from empty_command_vector_panics [OF run'] empty changed
  have panics: "fst (ProcessPR ?w' 7 0) = Panics"
    by blast
  from vectors safe empty changed panics show ?thesis
    by blast
qed

theorem empty_command_vector_counterexample:
  "AgentCommand ((scripted_Worker
        (script_ok\<lparr>prInfo_reply := Inl (Errorf ''PR #7 not found'')\<rparr>))\<lparr>AgentCommand := []\<rparr>) = []
   \<and> fst (ProcessPR ((scripted_Worker
        (script_ok\<lparr>prInfo_reply := Inl (Errorf ''PR #7 not found'')\<rparr>))\<lparr>AgentCommand := []\<rparr>) 7 0)
       = Returns (Some (Wrapf ''failed to get PR info: '' (Errorf ''PR #7 not found'')))
   \<and> fst (ProcessPR ((scripted_Worker
        (script_ok\<lparr>prInfo_reply := Inl (Errorf ''PR #7 not found'')\<rparr>))\<lparr>AgentCommand := []\<rparr>) 7 0)
       \<noteq> Panics"
  by (simp add: run_no_agent_command_unknown_pr)

section \<open>Start: branch, instructions, commit, push, pull request\<close>

lemma Start_runs:
  assumes "Start w branchName instruction s = (out, s', tr)"
  shows "(out = None \<and>
          tr = [CreateBranch_call branchName None,
                WriteFile_call (''docs/'' @ branchName @ ''-instructions.md'') instruction None,
                CommitAndPush_call (''Add instructions for '' @ branchName) None,
                PushBranchUpstream_call branchName None,
                CreatePR_call (''Implement '' @ branchName)
                  (''Study docs/'' @ branchName
                    @ ''-instructions.md and make a list of necessary implementation steps in docs/''
                    @ branchName @ ''-implementation-status.md'')
                  None]) \<or>
         (\<exists>err. out = Some (Wrapf ''failed to create branch: '' err) \<and>
          tr = [CreateBranch_call branchName (Some err)]) \<or>
         (\<exists>err. out = Some (Wrapf ''failed to write instructions file: '' err) \<and>
          tr = [CreateBranch_call branchName None,
                WriteFile_call (''docs/'' @ branchName @ ''-instructions.md'') instruction
                  (Some err)]) \<or>
         (\<exists>err. out = Some (Wrapf ''failed to commit instructions file: '' err) \<and>
          tr = [CreateBranch_call branchName None,
                WriteFile_call (''docs/'' @ branchName @ ''-instructions.md'') instruction None,
                CommitAndPush_call (''Add instructions for '' @ branchName) (Some err)]) \<or>
         (\<exists>err. out = Some (Wrapf ''failed to push branch upstream: '' err) \<and>
          tr = [CreateBranch_call branchName None,
                WriteFile_call (''docs/'' @ branchName @ ''-instructions.md'') instruction None,
                CommitAndPush_call (''Add instructions for '' @ branchName) None,
                PushBranchUpstream_call branchName (Some err)]) \<or>
         (\<exists>err. out = Some (Wrapf ''failed to create pull request: '' err) \<and>
          tr = [CreateBranch_call branchName None,
                WriteFile_call (''docs/'' @ branchName @ ''-instructions.md'') instruction None,
                CommitAndPush_call (''Add instructions for '' @ branchName) None,
                PushBranchUpstream_call branchName None,
                CreatePR_call (''Implement '' @ branchName)
                  (''Study docs/'' @ branchName
                    @ ''-instructions.md and make a list of necessary implementation steps in docs/''
                    @ branchName @ ''-implementation-status.md'')
                  (Some err)])"
proof -
  obtain r1 s1 where c1: "CreateBranch (Git w) branchName s = (r1, s1)"
    by fastforce
  obtain r2 s2 where c2:
    "WriteFile (Git w) (''docs/'' @ branchName @ ''-instructions.md'') instruction s1 = (r2, s2)"
    by fastforce
  obtain r3 s3 where c3:
    "CommitAndPush (Git w) (''Add instructions for '' @ branchName) s2 = (r3, s3)"
    by fastforce
  obtain r4 s4 where c4: "PushBranchUpstream (Git w) branchName s3 = (r4, s4)"
    by fastforce
  obtain r5 s5 where c5:
    "CreatePR (GitHub w) (''Implement '' @ branchName)
       (''Study docs/'' @ branchName
          @ ''-instructions.md and make a list of necessary implementation steps in docs/''
          @ branchName @ ''-implementation-status.md'') s4 = (r5, s5)"
    by fastforce
  note calls = c1 c2 c3 c4 c5
  show ?thesis
  proof (cases r1)
    case (Some err)
    with assms calls 
    have "out = Some (Wrapf ''failed to create branch: '' err) \<and>
        tr = [CreateBranch_call branchName (Some err)]"
      by (simp add: Start_def Let_def)
    then have "\<exists>err. out = Some (Wrapf ''failed to create branch: '' err) \<and>
        tr = [CreateBranch_call branchName (Some err)]"
      by (rule exI)
    then show ?thesis
      by (rule disjI2 [OF disjI1])
  next
    case created: None
    show ?thesis
    proof (cases r2)
      case (Some err)
      with assms calls created
      have "out = Some (Wrapf ''failed to write instructions file: '' err) \<and>
          tr = [CreateBranch_call branchName None,
                WriteFile_call (''docs/'' @ branchName @ ''-instructions.md'') instruction (Some err)]"
        by (simp add: Start_def Let_def)
      then have "\<exists>err. out = Some (Wrapf ''failed to write instructions file: '' err) \<and>
          tr = [CreateBranch_call branchName None,
                WriteFile_call (''docs/'' @ branchName @ ''-instructions.md'') instruction (Some err)]"
        by (rule exI)
      then show ?thesis
        by (rule disjI2 [OF disjI2 [OF disjI1]])
    next
      case written: None
      show ?thesis
      proof (cases r3)
        case (Some err)
        with assms calls created written
        have "out = Some (Wrapf ''failed to commit instructions file: '' err) \<and>
            tr = [CreateBranch_call branchName None,
                WriteFile_call (''docs/'' @ branchName @ ''-instructions.md'') instruction None,
                CommitAndPush_call (''Add instructions for '' @ branchName) (Some err)]"
          by (simp add: Start_def Let_def)
        then have "\<exists>err. out = Some (Wrapf ''failed to commit instructions file: '' err) \<and>
            tr = [CreateBranch_call branchName None,
                WriteFile_call (''docs/'' @ branchName @ ''-instructions.md'') instruction None,
                CommitAndPush_call (''Add instructions for '' @ branchName) (Some err)]"
          by (rule exI)
        then show ?thesis
          by (rule disjI2 [OF disjI2 [OF disjI2 [OF disjI1]]])
      next
        case committed: None
        show ?thesis
        proof (cases r4)
          case (Some err)
          with assms calls created written committed
          have "out = Some (Wrapf ''failed to push branch upstream: '' err) \<and>
              tr = [CreateBranch_call branchName None,
                WriteFile_call (''docs/'' @ branchName @ ''-instructions.md'') instruction None,
                CommitAndPush_call (''Add instructions for '' @ branchName) None,
                PushBranchUpstream_call branchName (Some err)]"
            by (simp add: Start_def Let_def)
          then have "\<exists>err. out = Some (Wrapf ''failed to push branch upstream: '' err) \<and>
              tr = [CreateBranch_call branchName None,
                WriteFile_call (''docs/'' @ branchName @ ''-instructions.md'') instruction None,
                CommitAndPush_call (''Add instructions for '' @ branchName) None,
                PushBranchUpstream_call branchName (Some err)]"
            by (rule exI)
          then show ?thesis
            by (rule disjI2 [OF disjI2 [OF disjI2 [OF disjI2 [OF disjI1]]]])
        next
          case pushed: None
          show ?thesis
          proof (cases r5)
            case (Some err)
            with assms calls created written committed pushed
            have "out = Some (Wrapf ''failed to create pull request: '' err) \<and>
                tr = [CreateBranch_call branchName None,
                WriteFile_call (''docs/'' @ branchName @ ''-instructions.md'') instruction None,
                CommitAndPush_call (''Add instructions for '' @ branchName) None,
                PushBranchUpstream_call branchName None,
                CreatePR_call (''Implement '' @ branchName)
                  (''Study docs/'' @ branchName
                    @ ''-instructions.md and make a list of necessary implementation steps in docs/''
                    @ branchName @ ''-implementation-status.md'')
                  (Some err)]"
              by (simp add: Start_def Let_def)
            then have "\<exists>err. out = Some (Wrapf ''failed to create pull request: '' err) \<and>
                tr = [CreateBranch_call branchName None,
                WriteFile_call (''docs/'' @ branchName @ ''-instructions.md'') instruction None,
                CommitAndPush_call (''Add instructions for '' @ branchName) None,
                PushBranchUpstream_call branchName None,
                CreatePR_call (''Implement '' @ branchName)
                  (''Study docs/'' @ branchName
                    @ ''-instructions.md and make a list of necessary implementation steps in docs/''
                    @ branchName @ ''-implementation-status.md'')
                  (Some err)]"
              by (rule exI)
            then show ?thesis
              by (rule disjI2 [OF disjI2 [OF disjI2 [OF disjI2 [OF disjI2]]]])
          next
            case opened: None
            with assms calls created written committed pushed
            have "out = None \<and>
                tr = [CreateBranch_call branchName None,
                WriteFile_call (''docs/'' @ branchName @ ''-instructions.md'') instruction None,
                CommitAndPush_call (''Add instructions for '' @ branchName) None,
                PushBranchUpstream_call branchName None,
                CreatePR_call (''Implement '' @ branchName)
                  (''Study docs/'' @ branchName
                    @ ''-instructions.md and make a list of necessary implementation steps in docs/''
                    @ branchName @ ''-implementation-status.md'')
                  None]"
              by (simp add: Start_def Let_def)
            then show ?thesis
              by (rule disjI1)
          qed
        qed
      qed
    qed
  qed
qed

lemma description_mentions_instructions:
  "sublist ''docs/feature/x-instructions.md''
     ''Study docs/feature/x-instructions.md and make a list of necessary implementation steps in docs/feature/x-implementation-status.md''"
  by (rule sublist_middle [where ps = "''Study ''"
        and ss = "'' and make a list of necessary implementation steps in docs/feature/x-implementation-status.md''"])
     simp

lemma description_mentions_status:
  "sublist ''docs/feature/x-implementation-status.md''
     ''Study docs/feature/x-instructions.md and make a list of necessary implementation steps in docs/feature/x-implementation-status.md''"
  by (rule sublist_middle [where ps = "''Study docs/feature/x-instructions.md and make a list of necessary implementation steps in ''"
        and ss = "[]"])
     simp

text \<open>
  Claim C7. \<^verbatim>\<open>Start("feature/x", "do thing")\<close> makes its calls in this order:
  \<^verbatim>\<open>CreateBranch("feature/x")\<close>; \<^verbatim>\<open>WriteFile\<close> of \<^verbatim>\<open>docs/feature/x-instructions.md\<close> with
  content \<^verbatim>\<open>do thing\<close>; \<^verbatim>\<open>CommitAndPush("Add instructions for feature/x")\<close>;
  \<^verbatim>\<open>PushBranchUpstream("feature/x")\<close>; \<^verbatim>\<open>CreatePR\<close> with the title
  \<^verbatim>\<open>Implement feature/x\<close> and a description that mentions both
  \<^verbatim>\<open>docs/feature/x-instructions.md\<close> and \<^verbatim>\<open>docs/feature/x-implementation-status.md\<close>.
  A run is one of six: all five calls succeed and \<^verbatim>\<open>Start\<close> returns \<^verbatim>\<open>nil\<close>, or the
  calls up to some step succeed, that step fails, no further call is made and \<^verbatim>\<open>Start\<close>
  returns the step's error, wrapped.
\<close>

theorem Start_feature_x:
  assumes "Start w ''feature/x'' ''do thing'' s = (out, s', tr)"
  shows "((out = None \<and>
          tr = [CreateBranch_call ''feature/x'' None,
                WriteFile_call ''docs/feature/x-instructions.md'' ''do thing'' None,
                CommitAndPush_call ''Add instructions for feature/x'' None,
                PushBranchUpstream_call ''feature/x'' None,
                CreatePR_call ''Implement feature/x''
                  ''Study docs/feature/x-instructions.md and make a list of necessary implementation steps in docs/feature/x-implementation-status.md''
                  None]) \<or>
         (\<exists>err. out = Some (Wrapf ''failed to create branch: '' err) \<and>
          tr = [CreateBranch_call ''feature/x'' (Some err)]) \<or>
         (\<exists>err. out = Some (Wrapf ''failed to write instructions file: '' err) \<and>
          tr = [CreateBranch_call ''feature/x'' None,
                WriteFile_call ''docs/feature/x-instructions.md'' ''do thing'' (Some err)]) \<or>
         (\<exists>err. out = Some (Wrapf ''failed to commit instructions file: '' err) \<and>
          tr = [CreateBranch_call ''feature/x'' None,
                WriteFile_call ''docs/feature/x-instructions.md'' ''do thing'' None,
                CommitAndPush_call ''Add instructions for feature/x'' (Some err)]) \<or>
         (\<exists>err. out = Some (Wrapf ''failed to push branch upstream: '' err) \<and>
          tr = [CreateBranch_call ''feature/x'' None,
                WriteFile_call ''docs/feature/x-instructions.md'' ''do thing'' None,
                CommitAndPush_call ''Add instructions for feature/x'' None,
                PushBranchUpstream_call ''feature/x'' (Some err)]) \<or>
         (\<exists>err. out = Some (Wrapf ''failed to create pull request: '' err) \<and>
          tr = [CreateBranch_call ''feature/x'' None,
                WriteFile_call ''docs/feature/x-instructions.md'' ''do thing'' None,
                CommitAndPush_call ''Add instructions for feature/x'' None,
                PushBranchUpstream_call ''feature/x'' None,
                CreatePR_call ''Implement feature/x''
                  ''Study docs/feature/x-instructions.md and make a list of necessary implementation steps in docs/feature/x-implementation-status.md''
                  (Some err)])) \<and>
        sublist ''docs/feature/x-instructions.md''
          ''Study docs/feature/x-instructions.md and make a list of necessary implementation steps in docs/feature/x-implementation-status.md'' \<and>
        sublist ''docs/feature/x-implementation-status.md''
          ''Study docs/feature/x-instructions.md and make a list of necessary implementation steps in docs/feature/x-implementation-status.md''"
proof -
  from Start_runs [OF assms] have runs: "(out = None \<and>
          tr = [CreateBranch_call ''feature/x'' None,
                WriteFile_call ''docs/feature/x-instructions.md'' ''do thing'' None,
                CommitAndPush_call ''Add instructions for feature/x'' None,
                PushBranchUpstream_call ''feature/x'' None,
                CreatePR_call ''Implement feature/x''
                  ''Study docs/feature/x-instructions.md and make a list of necessary implementation steps in docs/feature/x-implementation-status.md''
                  None]) \<or>
         (\<exists>err. out = Some (Wrapf ''failed to create branch: '' err) \<and>
          tr = [CreateBranch_call ''feature/x'' (Some err)]) \<or>
         (\<exists>err. out = Some (Wrapf ''failed to write instructions file: '' err) \<and>
          tr = [CreateBranch_call ''feature/x'' None,
                WriteFile_call ''docs/feature/x-instructions.md'' ''do thing'' (Some err)]) \<or>
         (\<exists>err. out = Some (Wrapf ''failed to commit instructions file: '' err) \<and>
          tr = [CreateBranch_call ''feature/x'' None,
                WriteFile_call ''docs/feature/x-instructions.md'' ''do thing'' None,
                CommitAndPush_call ''Add instructions for feature/x'' (Some err)]) \<or>
         (\<exists>err. out = Some (Wrapf ''failed to push branch upstream: '' err) \<and>
          tr = [CreateBranch_call ''feature/x'' None,
                WriteFile_call ''docs/feature/x-instructions.md'' ''do thing'' None,
                CommitAndPush_call ''Add instructions for feature/x'' None,
                PushBranchUpstream_call ''feature/x'' (Some err)]) \<or>
         (\<exists>err. out = Some (Wrapf ''failed to create pull request: '' err) \<and>
          tr = [CreateBranch_call ''feature/x'' None,
                WriteFile_call ''docs/feature/x-instructions.md'' ''do thing'' None,
                CommitAndPush_call ''Add instructions for feature/x'' None,
                PushBranchUpstream_call ''feature/x'' None,
                CreatePR_call ''Implement feature/x''
                  ''Study docs/feature/x-instructions.md and make a list of necessary implementation steps in docs/feature/x-implementation-status.md''
                  (Some err)])"
    by (simp only: append.simps)
  from runs description_mentions_instructions description_mentions_status show ?thesis
    by (intro conjI)
qed

theorem Start_feature_x_witness:
  "Start (scripted_Worker script_ok) ''feature/x'' ''do thing'' 0 =
     (None, 5,
      [CreateBranch_call ''feature/x'' None,
       WriteFile_call ''docs/feature/x-instructions.md'' ''do thing'' None,
       CommitAndPush_call ''Add instructions for feature/x'' None,
       PushBranchUpstream_call ''feature/x'' None,
       CreatePR_call ''Implement feature/x''
         ''Study docs/feature/x-instructions.md and make a list of necessary implementation steps in docs/feature/x-implementation-status.md''
         None])
   \<and> sublist ''docs/feature/x-implementation-status.md''
         ''Study docs/feature/x-instructions.md and make a list of necessary implementation steps in docs/feature/x-implementation-status.md''"
proof -
  have run: "Start (scripted_Worker script_ok) ''feature/x'' ''do thing'' 0 =
     (None, 5,
      [CreateBranch_call ''feature/x'' None,
       WriteFile_call ''docs/feature/x-instructions.md'' ''do thing'' None,
       CommitAndPush_call ''Add instructions for feature/x'' None,
       PushBranchUpstream_call ''feature/x'' None,
       CreatePR_call ''Implement feature/x''
         ''Study docs/feature/x-instructions.md and make a list of necessary implementation steps in docs/feature/x-implementation-status.md''
         None])"
    by (simp add: Start_def scripted_defs Let_def)
  from Start_feature_x [OF run]
  have "sublist ''docs/feature/x-implementation-status.md''
      ''Study docs/feature/x-instructions.md and make a list of necessary implementation steps in docs/feature/x-implementation-status.md''"
    by (rule conjunct2 [THEN conjunct2])
  with run show ?thesis
    by (rule conjI)
qed

section \<open>GitRunner: nothing to commit\<close>

lemma find_ascii_space:
  assumes "c \<in> {CHR 0x09, CHR 0x0A, CHR 0x0B, CHR 0x0C, CHR 0x0D, CHR 0x20}"
  shows "find (HasPrefix (c # s)) unicode_IsSpace_encodings = Some [c]"
proof -
  from assms consider "c = CHR 0x09" | "c = CHR 0x0A" | "c = CHR 0x0B"
    | "c = CHR 0x0C" | "c = CHR 0x0D" | "c = CHR 0x20"
    by blast
  then show ?thesis
    by cases (simp_all add: unicode_IsSpace_encodings_def HasPrefix_def)
qed

lemma strip_ascii_blank:
  "set s \<subseteq> {CHR 0x09, CHR 0x0A, CHR 0x0B, CHR 0x0C, CHR 0x0D, CHR 0x20}
     \<Longrightarrow> strip_runes unicode_IsSpace_encodings s = []"
proof (induction s)
  case Nil
  show ?case by simp
next
  case (Cons c s)
  then have "c \<in> {CHR 0x09, CHR 0x0A, CHR 0x0B, CHR 0x0C, CHR 0x0D, CHR 0x20}"
    and rest: "set s \<subseteq> {CHR 0x09, CHR 0x0A, CHR 0x0B, CHR 0x0C, CHR 0x0D, CHR 0x20}"
    by simp_all
  then have "find (HasPrefix (c # s)) unicode_IsSpace_encodings = Some [c]"
    by (simp only: find_ascii_space)
  with Cons.IH [OF rest] show ?case
    by simp
qed

lemma TrimSpace_ascii_blank:
  assumes "set s \<subseteq> {CHR 0x09, CHR 0x0A, CHR 0x0B, CHR 0x0C, CHR 0x0D, CHR 0x20}"
  shows "TrimSpace s = []"
  using strip_ascii_blank [OF assms]
  by (simp add: TrimSpace_def TrimLeftSpace_def TrimRightSpace_def)

text \<open>
  Claim C6. For every commit message: when \<^verbatim>\<open>git add .\<close> has succeeded and
  \<^verbatim>\<open>git status --porcelain\<close> succeeds with an output that \<^verbatim>\<open>strings.TrimSpace\<close> reduces
  to the empty string, \<^verbatim>\<open>GitRunner.CommitAndPush\<close> returns \<^verbatim>\<open>nil\<close> and the commands it
  has executed are those two: no \<^verbatim>\<open>git commit\<close>, no \<^verbatim>\<open>git push\<close>. An output made
  of ASCII white space only (the empty output among them) is such an output.
\<close>

theorem CommitAndPush_without_changes:
  assumes "cmd_Run ex [''git'', ''add'', ''.''] s = (None, s1)"
      and "cmd_Output ex [''git'', ''status'', ''--porcelain''] s1 = ((statusOutput, None), s2)"
  shows "(length (TrimSpace statusOutput) = 0 \<longrightarrow>
            GitRunner_CommitAndPush ex message s =
              (None, s2, [[''git'', ''add'', ''.''], [''git'', ''status'', ''--porcelain'']])) \<and>
         (set statusOutput \<subseteq> {CHR 0x09, CHR 0x0A, CHR 0x0B, CHR 0x0C, CHR 0x0D, CHR 0x20} \<longrightarrow>
            length (TrimSpace statusOutput) = 0)"
proof (intro conjI impI)
  assume "length (TrimSpace statusOutput) = 0"
  with assms show "GitRunner_CommitAndPush ex message s =
      (None, s2, [[''git'', ''add'', ''.''], [''git'', ''status'', ''--porcelain'']])"
    by (simp add: GitRunner_CommitAndPush_def)
next
  assume "set statusOutput \<subseteq> {CHR 0x09, CHR 0x0A, CHR 0x0B, CHR 0x0C, CHR 0x0D, CHR 0x20}"
  then show "length (TrimSpace statusOutput) = 0"
    by (simp only: TrimSpace_ascii_blank list.size)
qed

theorem CommitAndPush_without_changes_witness:
  "cmd_Run (scripted_Exec [CHR 0x0A]) [''git'', ''add'', ''.''] 0 = (None, 1)
   \<and> cmd_Output (scripted_Exec [CHR 0x0A]) [''git'', ''status'', ''--porcelain''] 1
       = (([CHR 0x0A], None), 2)
   \<and> set [CHR 0x0A] \<subseteq> {CHR 0x09, CHR 0x0A, CHR 0x0B, CHR 0x0C, CHR 0x0D, CHR 0x20}
   \<and> length (TrimSpace [CHR 0x0A]) = 0
   \<and> GitRunner_CommitAndPush (scripted_Exec [CHR 0x0A]) ''Automated changes from kratt worker'' 0
       = (None, 2, [[''git'', ''add'', ''.''], [''git'', ''status'', ''--porcelain'']])"
proof -
  let ?ex = "scripted_Exec [CHR 0x0A]"
  have staged: "cmd_Run ?ex [''git'', ''add'', ''.''] 0 = (None, 1)"
    by (simp add: scripted_Exec_def)
  have status: "cmd_Output ?ex [''git'', ''status'', ''--porcelain''] 1 = (([CHR 0x0A], None), 2)"
    by (simp add: scripted_Exec_def)
  have blank: "set [CHR 0x0A] \<subseteq> {CHR 0x09, CHR 0x0A, CHR 0x0B, CHR 0x0C, CHR 0x0D, CHR 0x20}"
    by simp
  from CommitAndPush_without_changes
    [OF staged status, of "''Automated changes from kratt worker''"] blank
  have "length (TrimSpace [CHR 0x0A]) = 0
      \<and> GitRunner_CommitAndPush ?ex ''Automated changes from kratt worker'' 0
          = (None, 2, [[''git'', ''add'', ''.''], [''git'', ''status'', ''--porcelain'']])"
    by blast
  with staged status blank show ?thesis
    by blast
qed

section \<open>GitRunner: owner and repository from the remote\<close>

lemma parse_ssh_path: "parseGitHubPath ''acme/widgets.git'' = Inr (''acme'', ''widgets'')"
  by code_simp

lemma parse_url_path: "parseGitHubPath ''/acme/widgets.git'' = Inr (''acme'', ''widgets'')"
  by code_simp

lemma ssh_prefix: "HasPrefix ''git@github.com:acme/widgets.git'' ''git@github.com:''"
  by code_simp

lemma ssh_path: "TrimPrefix ''git@github.com:acme/widgets.git'' ''git@github.com:'' = ''acme/widgets.git''"
  by code_simp

lemma https_no_ssh_prefix: "\<not> HasPrefix ''https://github.com/acme/widgets.git'' ''git@github.com:''"
  by code_simp

lemma trim_ssh_remote:
  "TrimSpace (''git@github.com:acme/widgets.git'' @ [CHR 0x0A]) = ''git@github.com:acme/widgets.git''"
  by code_simp

lemma trim_https_remote:
  "TrimSpace (''https://github.com/acme/widgets.git'' @ [CHR 0x0A])
     = ''https://github.com/acme/widgets.git''"
  by code_simp

lemma trim_gitlab_remote:
  "TrimSpace (''https://gitlab.com/acme/widgets.git'' @ [CHR 0x0A])
     = ''https://gitlab.com/acme/widgets.git''"
  by code_simp

lemma gitlab_no_ssh_prefix:
  "\<not> HasPrefix ''https://gitlab.com/acme/widgets.git'' ''git@github.com:''"
  by code_simp

text \<open>
  Claim C8. Let \<^verbatim>\<open>git remote get-url origin\<close> succeed, and call its trimmed output the
  remote. For the remote \<^verbatim>\<open>git@github.com:acme/widgets.git\<close>,
  \<^verbatim>\<open>GitRunner.GetGitHubRepository\<close> returns owner \<^verbatim>\<open>acme\<close> and repository \<^verbatim>\<open>widgets\<close>.
  For the remote \<^verbatim>\<open>https://github.com/acme/widgets.git\<close>, which \<^verbatim>\<open>url.Parse\<close> splits
  into the host \<^verbatim>\<open>github.com\<close> and the path \<^verbatim>\<open>/acme/widgets.git\<close>, it returns the same
  pair. For a remote without the SSH prefix that \<^verbatim>\<open>url.Parse\<close> accepts with a host
  other than \<^verbatim>\<open>github.com\<close>, it returns the error \<^verbatim>\<open>not a GitHub repository\<close>.
\<close>

theorem GetGitHubRepository_remotes:
  assumes "cmd_Output ex [''git'', ''remote'', ''get-url'', ''origin''] s = ((output, None), s1)"
  shows "(TrimSpace output = ''git@github.com:acme/widgets.git'' \<longrightarrow>
            fst (GitRunner_GetGitHubRepository url_Parse ex s) = Inr (''acme'', ''widgets'')) \<and>
         (TrimSpace output = ''https://github.com/acme/widgets.git'' \<and>
          url_Parse ''https://github.com/acme/widgets.git'' = Inr parsedURL \<and>
          Host parsedURL = ''github.com'' \<and> Path parsedURL = ''/acme/widgets.git'' \<longrightarrow>
            fst (GitRunner_GetGitHubRepository url_Parse ex s) = Inr (''acme'', ''widgets'')) \<and>
         (\<not> HasPrefix (TrimSpace output) ''git@github.com:'' \<and>
          url_Parse (TrimSpace output) = Inr otherURL \<and> Host otherURL \<noteq> ''github.com'' \<longrightarrow>
            fst (GitRunner_GetGitHubRepository url_Parse ex s) =
              Inl (Errorf (''not a GitHub repository: '' @ TrimSpace output)))"
proof (intro conjI impI)
  assume "TrimSpace output = ''git@github.com:acme/widgets.git''"
  with assms show "fst (GitRunner_GetGitHubRepository url_Parse ex s) = Inr (''acme'', ''widgets'')"
    by (simp add: GitRunner_GetGitHubRepository_def ssh_prefix ssh_path parse_ssh_path
          del: One_nat_def)
next
  assume "TrimSpace output = ''https://github.com/acme/widgets.git'' \<and>
      url_Parse ''https://github.com/acme/widgets.git'' = Inr parsedURL \<and>
      Host parsedURL = ''github.com'' \<and> Path parsedURL = ''/acme/widgets.git''"
  with assms show "fst (GitRunner_GetGitHubRepository url_Parse ex s) = Inr (''acme'', ''widgets'')"
    by (simp add: GitRunner_GetGitHubRepository_def https_no_ssh_prefix parse_url_path)
next
  assume "\<not> HasPrefix (TrimSpace output) ''git@github.com:'' \<and>
      url_Parse (TrimSpace output) = Inr otherURL \<and> Host otherURL \<noteq> ''github.com''"
  with assms show "fst (GitRunner_GetGitHubRepository url_Parse ex s) =
      Inl (Errorf (''not a GitHub repository: '' @ TrimSpace output))"
    by (simp add: GitRunner_GetGitHubRepository_def Let_def)
qed

theorem GetGitHubRepository_remotes_witness:
  "fst (GitRunner_GetGitHubRepository url_Parse_table
          (scripted_Exec (''git@github.com:acme/widgets.git'' @ [CHR 0x0A])) 0)
     = Inr (''acme'', ''widgets'')
   \<and> fst (GitRunner_GetGitHubRepository url_Parse_table
          (scripted_Exec (''https://github.com/acme/widgets.git'' @ [CHR 0x0A])) 0)
     = Inr (''acme'', ''widgets'')
   \<and> fst (GitRunner_GetGitHubRepository url_Parse_table
          (scripted_Exec (''https://gitlab.com/acme/widgets.git'' @ [CHR 0x0A])) 0)
     = Inl (Errorf (''not a GitHub repository: ''
          @ TrimSpace (''https://gitlab.com/acme/widgets.git'' @ [CHR 0x0A])))"
proof -
  let ?github = "\<lparr>Scheme = ''https'', Host = ''github.com'', Path = ''/acme/widgets.git''\<rparr>"
  let ?gitlab = "\<lparr>Scheme = ''https'', Host = ''gitlab.com'', Path = ''/acme/widgets.git''\<rparr>"
  have asked: "cmd_Output (scripted_Exec printed) [''git'', ''remote'', ''get-url'', ''origin''] 0
      = ((printed, None), 1)" for printed
    by (simp add: scripted_Exec_def)
  have github: "url_Parse_table ''https://github.com/acme/widgets.git'' = Inr ?github
      \<and> Host ?github = ''github.com'' \<and> Path ?github = ''/acme/widgets.git''"
    by (simp add: url_Parse_table_def)
  have gitlab: "url_Parse_table (TrimSpace (''https://gitlab.com/acme/widgets.git'' @ [CHR 0x0A]))
        = Inr ?gitlab
      \<and> Host ?gitlab \<noteq> ''github.com''
      \<and> \<not> HasPrefix (TrimSpace (''https://gitlab.com/acme/widgets.git'' @ [CHR 0x0A]))
            ''git@github.com:''"
    unfolding trim_gitlab_remote by (simp add: gitlab_no_ssh_prefix url_Parse_table_def)
  from GetGitHubRepository_remotes [OF asked, of _ url_Parse_table ?github ?gitlab]
    trim_ssh_remote
  have ssh: "fst (GitRunner_GetGitHubRepository url_Parse_table
          (scripted_Exec (''git@github.com:acme/widgets.git'' @ [CHR 0x0A])) 0)
     = Inr (''acme'', ''widgets'')"
    by blast
  from GetGitHubRepository_remotes [OF asked, of _ url_Parse_table ?github ?gitlab]
    trim_https_remote github
  have https: "fst (GitRunner_GetGitHubRepository url_Parse_table
          (scripted_Exec (''https://github.com/acme/widgets.git'' @ [CHR 0x0A])) 0)
     = Inr (''acme'', ''widgets'')"
    by blast
  from GetGitHubRepository_remotes [OF asked, of _ url_Parse_table ?github ?gitlab]
    gitlab
  have other: "fst (GitRunner_GetGitHubRepository url_Parse_table
          (scripted_Exec (''https://gitlab.com/acme/widgets.git'' @ [CHR 0x0A])) 0)
     = Inl (Errorf (''not a GitHub repository: ''
          @ TrimSpace (''https://gitlab.com/acme/widgets.git'' @ [CHR 0x0A])))"
    by blast
  from ssh https other show ?thesis
    by (intro conjI)
qed

section \<open>GitRunner: a worktree is found by substring\<close>

lemma HasPrefix_prefix: "HasPrefix s pre = prefix pre s"
proof
  assume "HasPrefix s pre"
  then have "s = pre @ drop (length pre) s"
    unfolding HasPrefix_def by (metis append_take_drop_id)
  then show "prefix pre s"
    by (rule prefixI)
next
  assume "prefix pre s"
  then obtain zs where "s = pre @ zs"
    by (auto simp: prefix_def)
  then show "HasPrefix s pre"
    by (simp add: HasPrefix_def)
qed

lemma Contains_sublist: "Contains s substr = sublist substr s"
  by (induction s) (auto simp: HasPrefix_prefix sublist_Cons_right)

lemma branch_line_found_iff:
  "branch_line_found lines branch =
     (\<exists>line \<in> set lines. prefix ''branch '' line \<and> sublist branch line)"
  by (induction lines) (auto simp: HasPrefix_prefix Contains_sublist)

lemma sublist_behind: "sublist xs ys \<Longrightarrow> sublist xs (ps @ ys)"
proof -
  assume "sublist xs ys"
  then obtain qs ss where "ys = qs @ xs @ ss"
    by (auto simp: sublist_def)
  then have "ps @ ys = (ps @ qs) @ xs @ ss"
    by simp
  then show ?thesis
    by (rule sublist_middle)
qed

lemma example_worktree_lines:
  "Split example_worktree_list (CHR 0x0A) =
     [''worktree /src/kratt'', ''HEAD 3f2a9c1'', ''branch refs/heads/main'', [],
      ''worktree /src/kratt-feature-2'', ''HEAD 7d4e0b2'', ''branch refs/heads/feature-2'', [],
      []]"
  by code_simp

text \<open>
  Claim C10. When \<^verbatim>\<open>git worktree list --porcelain\<close> succeeds,
  \<^verbatim>\<open>GitRunner.CheckWorktreeExists(branch)\<close> returns \<^verbatim>\<open>true\<close> exactly when some line of
  the output starts with \<^verbatim>\<open>branch \<close> and has the queried name as a substring. Hence,
  whenever the queried name is a substring of the name of another branch whose worktree
  is listed, the answer is \<^verbatim>\<open>true\<close>, whether or not the queried branch has a worktree.
\<close>

theorem CheckWorktreeExists_matches_substrings:
  assumes "cmd_Output ex [''git'', ''worktree'', ''list'', ''--porcelain''] s = ((output, None), s1)"
  shows "fst (GitRunner_CheckWorktreeExists ex branch s) =
           Inr (\<exists>line \<in> set (Split output (CHR 0x0A)).
                  prefix ''branch '' line \<and> sublist branch line) \<and>
         (\<forall>other. sublist branch other \<and>
                  ''branch refs/heads/'' @ other \<in> set (Split output (CHR 0x0A)) \<longrightarrow>
            fst (GitRunner_CheckWorktreeExists ex branch s) = Inr True)"
proof -
  have result: "fst (GitRunner_CheckWorktreeExists ex branch s) =
      Inr (\<exists>line \<in> set (Split output (CHR 0x0A)).
             prefix ''branch '' line \<and> sublist branch line)"
    using assms by (simp add: GitRunner_CheckWorktreeExists_def branch_line_found_iff)
  have confusable:
    "\<exists>line \<in> set (Split output (CHR 0x0A)). prefix ''branch '' line \<and> sublist branch line"
    if "sublist branch other" and "''branch refs/heads/'' @ other \<in> set (Split output (CHR 0x0A))"
    for other
  proof -
    have "prefix ''branch '' (''branch '' @ ''refs/heads/'' @ other)"
      by (rule prefixI) (rule refl)
    then have "prefix ''branch '' (''branch refs/heads/'' @ other)"
      by simp
    moreover have "sublist branch (''branch refs/heads/'' @ other)"
      using that(1) by (rule sublist_behind)
    ultimately show ?thesis
      using that(2) by blast
  qed
  show ?thesis
  proof (intro conjI allI impI)
    show "fst (GitRunner_CheckWorktreeExists ex branch s) =
        Inr (\<exists>line \<in> set (Split output (CHR 0x0A)).
               prefix ''branch '' line \<and> sublist branch line)"
      by (rule result)
  next
    fix other
    assume "sublist branch other \<and>
        ''branch refs/heads/'' @ other \<in> set (Split output (CHR 0x0A))"
    then have "\<exists>line \<in> set (Split output (CHR 0x0A)).
        prefix ''branch '' line \<and> sublist branch line"
      using confusable by blast
    then have found: "(\<exists>line \<in> set (Split output (CHR 0x0A)).
        prefix ''branch '' line \<and> sublist branch line) = True"
      by (rule eqTrueI)
    show "fst (GitRunner_CheckWorktreeExists ex branch s) = Inr True"
      unfolding result found by (rule refl)
  qed
qed

theorem CheckWorktreeExists_matches_substrings_witness:
  "cmd_Output (scripted_Exec example_worktree_list) [''git'', ''worktree'', ''list'', ''--porcelain''] 0
     = ((example_worktree_list, None), 1)
   \<and> sublist ''feature'' ''feature-2''
   \<and> ''branch refs/heads/'' @ ''feature-2'' \<in> set (Split example_worktree_list (CHR 0x0A))
   \<and> ''branch refs/heads/feature'' \<notin> set (Split example_worktree_list (CHR 0x0A))
   \<and> fst (GitRunner_CheckWorktreeExists (scripted_Exec example_worktree_list) ''feature'' 0)
       = Inr True"
proof -
  have listed: "cmd_Output (scripted_Exec example_worktree_list)
      [''git'', ''worktree'', ''list'', ''--porcelain''] 0 = ((example_worktree_list, None), 1)"
    by (simp add: scripted_Exec_def)
  have inside: "sublist ''feature'' ''feature-2''"
    by (rule sublist_middle [where ps = "[]" and ss = "''-2''"]) simp
  have line: "''branch refs/heads/'' @ ''feature-2'' \<in> set (Split example_worktree_list (CHR 0x0A))"
    by (simp add: example_worktree_lines)
  have absent: "''branch refs/heads/feature'' \<notin> set (Split example_worktree_list (CHR 0x0A))"
    by (simp add: example_worktree_lines)
  from CheckWorktreeExists_matches_substrings [OF listed, of "''feature''"] inside line
  have "fst (GitRunner_CheckWorktreeExists (scripted_Exec example_worktree_list) ''feature'' 0)
      = Inr True"
    by blast
  with listed inside line absent show ?thesis
    by (intro conjI)
qed

end
